theory Spec2Isabelle
  imports Main "HOL-Library.AList" "HOL-Library.List_Lexorder"
begin

section \<open>Strings\<close>

text \<open>
  Names, paths and digests are Python \<open>str\<close> values. They are modelled as \<open>string\<close>,
  a character being its code point below 256; case folding is the ASCII one
  (\<open>A\<close>..\<open>Z\<close> to \<open>a\<close>..\<open>z\<close>), which is what \<open>str.lower\<close>, \<open>str.upper\<close> and
  \<open>re.IGNORECASE\<close> do on ASCII text.
\<close>

definition upper_letters :: string where
  "upper_letters = ''ABCDEFGHIJKLMNOPQRSTUVWXYZ''"

definition lower_letters :: string where
  "lower_letters = ''abcdefghijklmnopqrstuvwxyz''"

definition lower_char :: "char \<Rightarrow> char" where
  "lower_char c = (case map_of (zip upper_letters lower_letters) c of Some d \<Rightarrow> d | None \<Rightarrow> c)"

definition upper_char :: "char \<Rightarrow> char" where
  "upper_char c = (case map_of (zip lower_letters upper_letters) c of Some d \<Rightarrow> d | None \<Rightarrow> c)"

definition lower :: "string \<Rightarrow> string" where
  "lower s = map lower_char s"

definition upper :: "string \<Rightarrow> string" where
  "upper s = map upper_char s"

definition ends_with :: "string \<Rightarrow> string \<Rightarrow> bool" where
  "ends_with s suf = (length suf \<le> length s \<and> drop (length s - length suf) s = suf)"

text \<open>
  Whitespace as \<open>str.strip\<close>, \<open>str.isspace\<close> and \<open>\s\<close> see it among the code points
  below 256: tab, line feed, vertical tab, form feed, carriage return, the four
  separators \<open>0x1C\<close>..\<open>0x1F\<close>, the space, the next-line control \<open>0x85\<close> and the
  no-break space \<open>0xA0\<close>.
\<close>

definition is_space :: "char \<Rightarrow> bool" where
  "is_space c = (c \<in> set [CHR 0x09, CHR 0x0A, CHR 0x0B, CHR 0x0C, CHR 0x0D,
                           CHR 0x1C, CHR 0x1D, CHR 0x1E, CHR 0x1F, CHR '' '',
                           CHR 0x85, CHR 0xA0])"

definition strip :: "string \<Rightarrow> string" where
  "strip s = rev (dropWhile is_space (rev (dropWhile is_space s)))"

text \<open>\<open>s.split(sep)\<close> for a separator of one character.\<close>

fun split_on :: "char \<Rightarrow> string \<Rightarrow> string list" where
  "split_on sep [] = [[]]"
| "split_on sep (c # cs) =
     (if c = sep then [] # split_on sep cs
      else (case split_on sep cs of [] \<Rightarrow> [[c]] | w # ws \<Rightarrow> (c # w) # ws))"

text \<open>
  \<open>zip_regex = re.compile(re.escape(os.path.extsep) + r'zip$', re.IGNORECASE)\<close> and
  \<open>is_zip(file) = bool(zip_regex.search(file))\<close>. Without \<open>re.MULTILINE\<close>, \<open>$\<close> matches at
  the end of the string and just before a newline that ends the string.
\<close>

definition is_zip :: "string \<Rightarrow> bool" where
  "is_zip file = (ends_with (lower file) ''.zip'' \<or> ends_with (lower file) (''.zip'' @ [CHR 0x0A]))"

section \<open>The catalog\<close>

text \<open>
  What \<open>datafile.parse\<close> hands back: games with a name, an optional \<open>cloneof\<close>, releases
  (each with an optional region) and ROMs (each with a name and an optional SHA1).
  An attribute that is \<open>None\<close> is \<open>None\<close> here; Python's truth test of a string
  (\<open>if game.cloneof\<close>, \<open>if not game_rom.sha1\<close>) is \<open>truthy\<close>.
\<close>

text \<open>
  The exceptions that the program meets. \<open>IOError\<close> is another name of \<open>OSError\<close>;
  \<open>BadZipFile\<close> is not an \<open>OSError\<close>.
\<close>

datatype py_error =
  AttributeError | KeyError | OSError | ValueError | IndexError | BadZipFile | RuntimeError

record rom =
  rom_name :: string
  rom_sha1 :: "string option"

record release =
  rel_region :: "string option"

record game =
  game_name :: string
  game_cloneof :: "string option"
  game_release :: "release list"
  game_rom :: "rom list"

definition truthy :: "string option \<Rightarrow> bool" where
  "truthy s = (case s of None \<Rightarrow> False | Some v \<Rightarrow> v \<noteq> [])"

text \<open>\<open>s.lower()\<close> on an optional string: \<open>None.lower()\<close> raises \<open>AttributeError\<close>.\<close>

definition lower_opt :: "string option \<Rightarrow> py_error + string" where
  "lower_opt s = (case s of None \<Rightarrow> Inl AttributeError | Some v \<Rightarrow> Inr (lower v))"

text \<open>
  \<open>sys.exit\<close> ends the program with a status: \<open>sys.exit()\<close> with status 0,
  \<open>sys.exit(1)\<close> with status 1. An exception that nothing catches ends it too.
\<close>

datatype exit = Exit nat | Uncaught py_error

text \<open>
  \<open>validate_dat\<close>; \<open>answer\<close> is the line read from the terminal when the catalog has no
  clone.
\<close>

definition has_cloneof :: "game list \<Rightarrow> bool" where
  "has_cloneof games = list_ex (\<lambda>g. truthy (game_cloneof g)) games"

definition lacks_sha1 :: "game list \<Rightarrow> bool" where
  "lacks_sha1 games = list_ex (\<lambda>g. list_ex (\<lambda>game_rom. \<not> truthy (rom_sha1 game_rom)) (game_rom g)) games"

definition validate_dat :: "game list \<Rightarrow> bool \<Rightarrow> string \<Rightarrow> exit + unit" where
  "validate_dat games use_hashes answer =
     (if use_hashes \<and> lacks_sha1 games then Inl (Exit 1)
      else if \<not> has_cloneof games then
        (if strip answer \<notin> set [''y'', ''Y''] then Inl (Exit 0) else Inr ())
      else Inr ())"

section \<open>Hashing files under a cancellation flag\<close>

text \<open>
  \<open>QUIT\<close> is a process-wide flag that starts \<open>False\<close>, is only ever assigned \<open>True\<close>
  (in the interrupt handler) and is read by the workers. What one worker sees of it is
  therefore a run of \<open>False\<close> readings followed by \<open>True\<close> readings only. A worker's view
  is the number of its first reading that yields \<open>True\<close> (\<open>None\<close>: it never does), and the
  worker counts its readings: the counter \<open>t\<close> is threaded through every function that
  reads the flag, and every reading advances it by one.
\<close>

type_synonym view = "nat option"

definition QUIT :: "view \<Rightarrow> nat \<Rightarrow> bool" where
  "QUIT q t = (case q of None \<Rightarrow> False | Some k \<Rightarrow> k \<le> t)"

text \<open>
  A stream that is open for reading is the bytes that it still delivers and what lies
  behind them: the end of the file (\<open>None\<close>) or an error, which a read that needs more
  than the bytes that are left raises. \<open>internal_file.read(CHUNK_SIZE)\<close> yields the next
  chunk and leaves the rest of the stream. A negative size reads everything that is
  left, size zero reads nothing; at the end of the file the chunk is empty.
\<close>

type_synonym stream = "string \<times> py_error option"

definition read_raises :: "int \<Rightarrow> string \<Rightarrow> py_error option \<Rightarrow> py_error option" where
  "read_raises n data err = (if n < 0 \<or> int (length data) < n then err else None)"

definition read_chunk :: "int \<Rightarrow> string \<Rightarrow> string" where
  "read_chunk n data = (if n < 0 then data else take (nat n) data)"

definition read_rest :: "int \<Rightarrow> string \<Rightarrow> string" where
  "read_rest n data = (if n < 0 then [] else drop (nat n) data)"

text \<open>
  The loop of \<open>compute_hash\<close>. The hasher is the string of bytes it has been fed.
  \<^verbatim>\<open>
    while not QUIT:
        chunk = internal_file.read(CHUNK_SIZE)
        if not chunk and not QUIT:
            break
        hasher.update(chunk)
  \<close>
  The result is the hasher, or the exception that a read has raised, and the counter of
  readings of the flag.
\<close>

function compute_hash_loop ::
  "view \<Rightarrow> int \<Rightarrow> nat \<Rightarrow> string \<Rightarrow> string \<Rightarrow> py_error option \<Rightarrow> (py_error + string) \<times> nat" where
  "compute_hash_loop q n t hasher data err =
     (if QUIT q t then (Inr hasher, Suc t)
      else case read_raises n data err of
        Some e \<Rightarrow> (Inl e, Suc t)
      | None \<Rightarrow>
          (if read_chunk n data = [] then
             (if \<not> QUIT q (Suc t) then (Inr hasher, Suc (Suc t))
              else compute_hash_loop q n (Suc (Suc t)) (hasher @ read_chunk n data)
                     (read_rest n data) err)
           else compute_hash_loop q n (Suc t) (hasher @ read_chunk n data)
                  (read_rest n data) err))"
  by pat_completeness auto
termination
proof (relation "measure (\<lambda>(q, n, t, hasher, data, err). 2 * length data + (if QUIT q t then 0 else 1))")
  show "wf (measure (\<lambda>(q, n, t, hasher, data, err). 2 * length data + (if QUIT q t then 0 else 1)))"
    by simp
next
  fix q :: view and n :: int and t :: nat and hasher data :: string and err :: "py_error option"
  assume a: "\<not> QUIT q t" "read_chunk n data = []" "\<not> \<not> QUIT q (Suc t)"
  have "QUIT q (Suc (Suc t))"
    using a(3) by (auto simp: QUIT_def split: option.splits)
  moreover have "length (read_rest n data) \<le> length data"
    by (simp add: read_rest_def)
  ultimately show "((q, n, Suc (Suc t), hasher @ read_chunk n data, read_rest n data, err),
                    (q, n, t, hasher, data, err)) \<in>
      measure (\<lambda>(q, n, t, hasher, data, err). 2 * length data + (if QUIT q t then 0 else 1))"
    using a(1) by simp
next
  fix q :: view and n :: int and t :: nat and hasher data :: string and err :: "py_error option"
  assume a: "\<not> QUIT q t" "read_chunk n data \<noteq> []"
  have "length (read_rest n data) < length data"
    using a(2) by (auto simp: read_rest_def read_chunk_def split: if_splits)
  then show "((q, n, Suc t, hasher @ read_chunk n data, read_rest n data, err),
              (q, n, t, hasher, data, err)) \<in>
      measure (\<lambda>(q, n, t, hasher, data, err). 2 * length data + (if QUIT q t then 0 else 1))"
    by simp
qed

declare compute_hash_loop.simps [simp del]

text \<open>
  \<open>compute_hash\<close>: \<open>hashlib.sha1\<close> is the parameter \<open>H\<close>, from the bytes fed to the
  hasher to its hexadecimal digest; the function returns \<open>hasher.hexdigest().lower()\<close>,
  unless a read raises.
\<close>

definition compute_hash ::
  "(string \<Rightarrow> string) \<Rightarrow> view \<Rightarrow> int \<Rightarrow> nat \<Rightarrow> stream \<Rightarrow> (py_error + string) \<times> nat" where
  "compute_hash H q n t internal_file =
     (case compute_hash_loop q n t [] (fst internal_file) (snd internal_file) of
        (Inl e, t') \<Rightarrow> (Inl e, t')
      | (Inr hasher, t') \<Rightarrow> (Inr (lower (H hasher)), t'))"

text \<open>
  A \<open>Dict[str, str]\<close> from digest to path is an association list: \<open>AList.update\<close> replaces
  the value of a key that is present and appends a new key at the end, as assignment
  to a Python dict does, and \<open>map_of\<close> looks a key up.
\<close>

type_synonym index = "(string \<times> string) list"

text \<open>
  What opening yields: the thing opened, or the exception that the call raises. For a
  path, \<open>c_file\<close> is the outcome of \<open>open(full_path, 'rb')\<close> and \<open>c_zip\<close> the outcome of
  \<open>ZipFile(full_path)\<close>: for an archive that opens, the outcome of
  \<open>compressed_file.open(name)\<close> for each name of \<open>namelist()\<close>, in that order. The
  diagnostics that \<open>process_file\<close> prints for the exceptions it catches go to stderr and
  are left out.
\<close>

datatype 'a opened = Raises py_error | Opened 'a

record content =
  c_file :: "stream opened"
  c_zip :: "stream opened list opened"

type_synonym filesystem = "string \<Rightarrow> content"

record file_data =
  fd_size :: nat
  fd_path :: string

text \<open>
  The loop over the members of an archive in \<open>process_file\<close>. It ends at the first
  exception, which is returned with the mapping filled so far: \<open>result\<close> is updated in
  place, so what was recorded before the exception stays recorded.
\<close>

fun hash_members ::
  "(string \<Rightarrow> string) \<Rightarrow> view \<Rightarrow> int \<Rightarrow> string \<Rightarrow> nat \<Rightarrow> index \<Rightarrow> stream opened list \<Rightarrow>
   py_error option \<times> index \<times> nat" where
  "hash_members H q n full_path t result [] = (None, result, t)"
| "hash_members H q n full_path t result (m # ms) =
     (if \<not> QUIT q t then
        (case m of
           Raises e \<Rightarrow> (Some e, result, Suc t)
         | Opened internal_file \<Rightarrow>
             (case compute_hash H q n (Suc t) internal_file of
                (Inl e, t') \<Rightarrow> (Some e, result, t')
              | (Inr digest, t') \<Rightarrow>
                  hash_members H q n full_path t' (AList.update digest full_path result) ms))
      else hash_members H q n full_path (Suc t) result ms)"

text \<open>
  The first \<open>try\<close> of \<open>process_file\<close>, for a path that \<open>is_zip\<close> accepts: what it raises
  (\<open>None\<close>: nothing), the mapping and the counter.
\<close>

definition hash_compressed ::
  "(string \<Rightarrow> string) \<Rightarrow> view \<Rightarrow> int \<Rightarrow> filesystem \<Rightarrow> nat \<Rightarrow> string \<Rightarrow>
   py_error option \<times> index \<times> nat" where
  "hash_compressed H q n fs t full_path =
     (case c_zip (fs full_path) of
        Raises e \<Rightarrow> (Some e, [], t)
      | Opened ms \<Rightarrow> hash_members H q n full_path t [] ms)"

text \<open>
  The second \<open>try\<close> of \<open>process_file\<close>; \<open>except IOError\<close> catches an \<open>OSError\<close> and lets
  any other exception pass.
\<close>

definition hash_uncompressed ::
  "(string \<Rightarrow> string) \<Rightarrow> view \<Rightarrow> int \<Rightarrow> filesystem \<Rightarrow> nat \<Rightarrow> string \<Rightarrow> index \<Rightarrow>
   (py_error + index) \<times> nat" where
  "hash_uncompressed H q n fs t full_path result =
     (case c_file (fs full_path) of
        Raises e \<Rightarrow> (if e = OSError then (Inr result, t) else (Inl e, t))
      | Opened uncompressed_file \<Rightarrow>
          (case compute_hash H q n t uncompressed_file of
             (Inl e, t') \<Rightarrow> (if e = OSError then (Inr result, t') else (Inl e, t'))
           | (Inr digest, t') \<Rightarrow>
               (case map_of result digest of
                  None \<Rightarrow> (Inr (AList.update digest full_path result), t')
                | Some p \<Rightarrow>
                    (if is_zip p then (Inr (AList.update digest full_path result), t')
                     else (Inr result, t')))))"

text \<open>
  \<open>process_file\<close>: \<open>except BadZipFile\<close> catches that exception alone, so any other one
  raised while the archive is opened or its members are opened and read leaves the
  function.
\<close>

definition process_file ::
  "(string \<Rightarrow> string) \<Rightarrow> view \<Rightarrow> int \<Rightarrow> filesystem \<Rightarrow> nat \<Rightarrow> file_data \<Rightarrow> (py_error + index) \<times> nat" where
  "process_file H q n fs t fd =
     (let full_path = fd_path fd in
      if is_zip full_path then
        (case hash_compressed H q n fs t full_path of
           (None, result, t1) \<Rightarrow> hash_uncompressed H q n fs t1 full_path result
         | (Some e, result, t1) \<Rightarrow>
             (if e = BadZipFile then hash_uncompressed H q n fs t1 full_path result
              else (Inl e, t1)))
      else hash_uncompressed H q n fs t full_path [])"

text \<open>
  The worker, \<open>process_with_progress\<close>, counting its readings of the flag from zero. An
  exception of \<open>process_file\<close> leaves the worker too.
\<close>

definition process_with_progress ::
  "(string \<Rightarrow> string) \<Rightarrow> view \<Rightarrow> int \<Rightarrow> filesystem \<Rightarrow> file_data \<Rightarrow> py_error + index" where
  "process_with_progress H q n fs fd =
     (if QUIT q 0 then Inr []
      else case process_file H q n fs 1 fd of
        (Inl e, t) \<Rightarrow> Inl e
      | (Inr this_result, t) \<Rightarrow> if QUIT q t then Inr [] else Inr this_result)"

text \<open>
  \<open>index_files\<close>. The catalog is the list of games; \<open>listing\<close> is what \<open>os.walk\<close> finds,
  each path with the result of \<open>os.path.getsize\<close> (\<open>None\<close>: it raises \<open>OSError\<close>, the file
  is reported and left out); \<open>views\<close> gives, for each path, the view its worker has of
  the flag. \<open>THREADS\<close> is \<open>None\<close> unless \<open>--threads\<close> has set it;
  \<open>ThreadPoolExecutor(THREADS)\<close>, which is reached when there are files to hash, raises
  \<open>ValueError\<close> for a number that is not positive. \<open>pool.map\<close> returns the results in the
  order of \<open>files_data\<close>, and the loop that merges them meets the exception of a worker
  in place of its result.
\<close>

fun init_index :: "index \<Rightarrow> rom list \<Rightarrow> py_error + index" where
  "init_index result [] = Inr result"
| "init_index result (rom_entry # rs) =
     (case lower_opt (rom_sha1 rom_entry) of
        Inl e \<Rightarrow> Inl e
      | Inr d \<Rightarrow> init_index (AList.update d [] result) rs)"

definition catalog_roms :: "game list \<Rightarrow> rom list" where
  "catalog_roms games = concat (map game_rom games)"

fun scan_files :: "(string \<times> nat option) list \<Rightarrow> file_data list" where
  "scan_files [] = []"
| "scan_files ((full_path, None) # l) = scan_files l"
| "scan_files ((full_path, Some file_size) # l) =
     \<lparr>fd_size = file_size, fd_path = full_path\<rparr> # scan_files l"

definition files_data :: "(string \<times> nat option) list \<Rightarrow> file_data list" where
  "files_data listing = sort_key (\<lambda>fd. - int (fd_size fd)) (scan_files listing)"

fun merge_items :: "index \<Rightarrow> (string \<times> string) list \<Rightarrow> index" where
  "merge_items result [] = result"
| "merge_items result ((key, val) # kvs) =
     merge_items
       (case map_of result key of
          None \<Rightarrow> result
        | Some p \<Rightarrow> if \<not> is_zip p then AList.update key val result else result)
       kvs"

fun merge_results :: "index \<Rightarrow> (py_error + index) list \<Rightarrow> py_error + index" where
  "merge_results result [] = Inr result"
| "merge_results result (Inl e # irs) = Inl e"
| "merge_results result (Inr intermediate_result # irs) =
     merge_results (merge_items result intermediate_result) irs"

definition intermediate_results ::
  "(string \<Rightarrow> string) \<Rightarrow> (string \<Rightarrow> view) \<Rightarrow> int \<Rightarrow> filesystem \<Rightarrow> (string \<times> nat option) list \<Rightarrow>
   (py_error + index) list" where
  "intermediate_results H views n fs listing =
     map (\<lambda>fd. process_with_progress H (views (fd_path fd)) n fs fd) (files_data listing)"

definition pool_raises :: "int option \<Rightarrow> bool" where
  "pool_raises THREADS = (case THREADS of None \<Rightarrow> False | Some max_workers \<Rightarrow> max_workers \<le> 0)"

definition index_files ::
  "(string \<Rightarrow> string) \<Rightarrow> (string \<Rightarrow> view) \<Rightarrow> int \<Rightarrow> int option \<Rightarrow> filesystem \<Rightarrow>
   (string \<times> nat option) list \<Rightarrow> game list \<Rightarrow> py_error + index" where
  "index_files H views n THREADS fs listing games =
     (case init_index [] (catalog_roms games) of
        Inl e \<Rightarrow> Inl e
      | Inr result \<Rightarrow>
          (if files_data listing \<noteq> [] then
             (if pool_raises THREADS then Inl ValueError
              else merge_results result (intermediate_results H views n fs listing))
           else Inr result))"

text \<open>
  The lookup of the selection loop: \<open>digest = entry_rom.sha1.lower()\<close> and then
  \<open>hash_index[digest]\<close>, which raises \<open>KeyError\<close> on a digest that is not a key.
\<close>

definition rom_input_path :: "index \<Rightarrow> rom \<Rightarrow> py_error + string" where
  "rom_input_path hash_index entry_rom =
     (case lower_opt (rom_sha1 entry_rom) of
        Inl e \<Rightarrow> Inl e
      | Inr digest \<Rightarrow>
          (case map_of hash_index digest of None \<Rightarrow> Inl KeyError | Some p \<Rightarrow> Inr p))"

section \<open>Candidates and the selection walk\<close>

record score =
  sc_region :: int
  sc_languages :: int
  sc_revision :: "int list"
  sc_version :: "int list"
  sc_sample :: "int list"
  sc_demo :: "int list"
  sc_beta :: "int list"
  sc_proto :: "int list"

text \<open>
  \<open>GameEntry\<close>, with the fields in the order in which \<open>parse_games\<close> passes them to the
  constructor; \<open>ge_score\<close> is \<open>None\<close> until \<open>set_scores\<close> assigns it.
\<close>

record game_entry =
  ge_is_bad :: bool
  ge_is_prerelease :: bool
  ge_region :: string
  ge_languages :: "string list"
  ge_input_index :: nat
  ge_revision :: string
  ge_version :: string
  ge_sample :: string
  ge_demo :: string
  ge_beta :: string
  ge_proto :: string
  ge_is_parent :: bool
  ge_name :: string
  ge_roms :: "rom list"
  ge_score :: "score option"

definition UNSELECTED :: int where
  "UNSELECTED = 10000"

definition NOT_PRERELEASE :: string where
  "NOT_PRERELEASE = ''Z''"

text \<open>
  Modelled from the spec: \<open>check_in_pattern_list\<close> of \<open>utils\<close> is not among the sources.
  The spec has a name match a pattern list when it matches any pattern of the list. A
  compiled pattern is represented by its search predicate on names.
\<close>

type_synonym pattern = "string \<Rightarrow> bool"

definition check_in_pattern_list :: "string \<Rightarrow> pattern list \<Rightarrow> bool" where
  "check_in_pattern_list nm patterns = list_ex (\<lambda>p. p nm) patterns"

text \<open>The search predicate of a pattern compiled from an escaped literal.\<close>

fun is_substring :: "string \<Rightarrow> string \<Rightarrow> bool" where
  "is_substring lit [] = (lit = [])"
| "is_substring lit (c # cs) = (take (length lit) (c # cs) = lit \<or> is_substring lit cs)"

definition literal_pattern :: "bool \<Rightarrow> string \<Rightarrow> pattern" where
  "literal_pattern ignore_case x =
     (\<lambda>nm. if ignore_case then is_substring (lower x) (lower nm) else is_substring x nm)"

text \<open>
  What the walk does to the outside world, in order: lines on stdout, diagnostics on
  stderr, and the file operations. \<open>Transfer\<close> stands for a call of \<open>transfer_file\<close>, which
  announces the copy or move on stdout, performs it and reports an \<open>OSError\<close> itself.
\<close>

datatype diagnostic =
    RomNotFound "string option" string string
  | CandidateNotFound "string option" string
  | NoEligible string

datatype event =
    Print string
  | Warning diagnostic
  | MakeDirs string
  | Transfer string string bool
  | CopyStat string string

fun render :: "diagnostic \<Rightarrow> string" where
  "render (RomNotFound (Some g) r c) =
     ''WARNING ['' @ g @ '']: ROM file ['' @ r @ ''] for candidate ['' @ c @ ''] not found''"
| "render (RomNotFound None r c) =
     ''WARNING: ROM file ['' @ r @ ''] for candidate ['' @ c @ ''] not found''"
| "render (CandidateNotFound (Some g) c) =
     ''WARNING ['' @ g @ '']: candidate ['' @ c @ ''] not found, trying next one''"
| "render (CandidateNotFound None c) =
     ''WARNING: candidate ['' @ c @ ''] not found, trying next one''"
| "render (NoEligible g) =
     ''WARNING: no eligible candidates for ['' @ g @ ''] have been found!''"

fun is_warning :: "event \<Rightarrow> bool" where
  "is_warning (Warning d) = True"
| "is_warning ev = False"

text \<open>Paths, on a system whose \<open>os.path.sep\<close> is \<open>/\<close> and whose \<open>os.path.extsep\<close> is \<open>.\<close>.\<close>

definition path_join :: "string \<Rightarrow> string \<Rightarrow> string" where
  "path_join a b =
     (if b \<noteq> [] \<and> hd b = CHR ''/'' then b
      else if a = [] \<or> last a = CHR ''/'' then a @ b
      else a @ ''/'' @ b)"

definition add_extension :: "string \<Rightarrow> string \<Rightarrow> string" where
  "add_extension file_name file_extension =
     (if file_extension \<noteq> [] then file_name @ ''.'' @ file_extension else file_name)"

fun replace_first :: "string \<Rightarrow> string \<Rightarrow> string" where
  "replace_first old [] = []"
| "replace_first old (c # cs) =
     (if take (length old) (c # cs) = old then drop (length old) (c # cs)
      else c # replace_first old cs)"

definition file_relative_to_input :: "string \<Rightarrow> string \<Rightarrow> string" where
  "file_relative_to_input file input_dir =
     dropWhile (\<lambda>c. c = CHR ''/'') (replace_first input_dir file)"

text \<open>
  The questions the walk asks the file system, and whether \<open>os.makedirs\<close> and
  \<open>shutil.copystat\<close> raise \<open>OSError\<close>, which nothing catches.
\<close>

record os_env =
  isfile :: "string \<Rightarrow> bool"
  isdir :: "string \<Rightarrow> bool"
  makedirs_fails :: "string \<Rightarrow> bool"
  copystat_fails :: "string \<Rightarrow> string \<Rightarrow> bool"

text \<open>The options and the index that the selection loop of \<open>main\<close> reads.\<close>

record select_cfg =
  use_hashes :: bool
  input_dir :: string
  output_dir :: string
  file_extension :: string
  move :: bool
  verbose :: bool
  NO_WARNING :: bool
  all_regions :: bool
  all_regions_with_lang :: bool
  exclude_after :: "pattern list"
  hash_index :: index

datatype flow = Break | Continue | Raise py_error

text \<open>
  Hash-based resolution: the loop over \<open>entry.roms\<close>. It returns the events, the set
  \<open>copied_files\<close> and the exception that ended it, if any.
\<close>

fun hash_roms ::
  "select_cfg \<Rightarrow> os_env \<Rightarrow> string \<Rightarrow> game_entry \<Rightarrow> string list \<Rightarrow> rom list \<Rightarrow>
   event list \<times> string list \<times> py_error option" where
  "hash_roms cfg env gm entry copied_files [] = ([], copied_files, None)"
| "hash_roms cfg env gm entry copied_files (entry_rom # rs) =
     (case rom_input_path (hash_index cfg) entry_rom of
        Inl e \<Rightarrow> ([], copied_files, Some e)
      | Inr path \<Rightarrow>
          (if path \<noteq> [] then
             (let is_zip_file = is_zip path;
                  file = file_relative_to_input path (input_dir cfg)
              in if output_dir cfg = [] then
                   (if path \<notin> set copied_files then
                      (case hash_roms cfg env gm entry (path # copied_files) rs of
                         (evs, c, r) \<Rightarrow> (Print file # evs, c, r))
                    else hash_roms cfg env gm entry copied_files rs)
                 else if path \<notin> set copied_files then
                   (let nested = (\<not> is_zip_file \<and>
                                    (length (ge_roms entry) > 1 \<or> CHR ''/'' \<in> set file));
                        rom_output_dir =
                          (if nested then path_join (output_dir cfg) (ge_name entry)
                           else output_dir cfg);
                        rom_output_path =
                          (if is_zip_file
                           then path_join rom_output_dir (add_extension (ge_name entry) ''zip'')
                           else path_join rom_output_dir (rom_name entry_rom))
                    in if nested \<and> makedirs_fails env rom_output_dir then
                         ([], copied_files, Some OSError)
                       else
                         (case hash_roms cfg env gm entry (path # copied_files) rs of
                            (evs, c, r) \<Rightarrow>
                              ((if nested then [MakeDirs rom_output_dir] else []) @
                               Transfer path rom_output_path (move cfg) # evs, c, r)))
                 else hash_roms cfg env gm entry copied_files rs)
           else if \<not> NO_WARNING cfg then
             (case hash_roms cfg env gm entry copied_files rs of
                (evs, c, r) \<Rightarrow>
                  (Warning (RomNotFound (if verbose cfg then Some gm else None)
                              (rom_name entry_rom) (ge_name entry)) # evs, c, r))
           else hash_roms cfg env gm entry copied_files rs))"

definition handle_hashes ::
  "select_cfg \<Rightarrow> os_env \<Rightarrow> string \<Rightarrow> nat \<Rightarrow> nat \<Rightarrow> game_entry \<Rightarrow> event list \<times> flow" where
  "handle_hashes cfg env gm sz i entry =
     (case hash_roms cfg env gm entry [] (ge_roms entry) of
        (evs, copied_files, Some e) \<Rightarrow> (evs, Raise e)
      | (evs, copied_files, None) \<Rightarrow>
          (if copied_files \<noteq> [] then (evs, Break)
           else if \<not> NO_WARNING cfg \<and> Suc i = sz then
             (evs @ [Warning (NoEligible gm)], Continue)
           else (evs, Continue)))"

text \<open>Path-based resolution: the loop over \<open>entry.roms\<close> inside a directory.\<close>

fun dir_roms ::
  "select_cfg \<Rightarrow> os_env \<Rightarrow> string \<Rightarrow> string \<Rightarrow> string \<Rightarrow> rom list \<Rightarrow>
   event list \<times> py_error option" where
  "dir_roms cfg env gm file_name full_path [] = ([], None)"
| "dir_roms cfg env gm file_name full_path (entry_rom # rs) =
     (let rom_path = path_join full_path (rom_name entry_rom) in
      if isfile env rom_path then
        (if output_dir cfg \<noteq> [] then
           (let rom_output_dir = path_join (output_dir cfg) file_name in
            if makedirs_fails env rom_output_dir then ([], Some OSError)
            else if copystat_fails env full_path rom_output_dir then
              ([MakeDirs rom_output_dir, Transfer rom_path rom_output_dir (move cfg)],
               Some OSError)
            else
              (case dir_roms cfg env gm file_name full_path rs of
                 (evs, r) \<Rightarrow>
                   (MakeDirs rom_output_dir # Transfer rom_path rom_output_dir (move cfg) #
                    CopyStat full_path rom_output_dir # evs, r)))
         else
           (case dir_roms cfg env gm file_name full_path rs of
              (evs, r) \<Rightarrow> (Print (file_name @ ''/'' @ rom_name entry_rom) # evs, r)))
      else if \<not> NO_WARNING cfg then
        (case dir_roms cfg env gm file_name full_path rs of
           (evs, r) \<Rightarrow>
             (Warning (RomNotFound (if verbose cfg then Some gm else None)
                         (rom_name entry_rom) file_name) # evs, r))
      else dir_roms cfg env gm file_name full_path rs)"

definition handle_input_dir ::
  "select_cfg \<Rightarrow> os_env \<Rightarrow> string \<Rightarrow> nat \<Rightarrow> nat \<Rightarrow> game_entry \<Rightarrow> event list \<times> flow" where
  "handle_input_dir cfg env gm sz i entry =
     (let file_name = add_extension (ge_name entry) (file_extension cfg);
          full_path = path_join (input_dir cfg) file_name
      in if isfile env full_path then
           (if output_dir cfg \<noteq> [] then
              ([Transfer full_path (output_dir cfg) (move cfg)], Break)
            else ([Print file_name], Break))
         else if isdir env full_path then
           (case dir_roms cfg env gm file_name full_path (ge_roms entry) of
              (evs, Some e) \<Rightarrow> (evs, Raise e)
            | (evs, None) \<Rightarrow> (evs, Break))
         else if \<not> NO_WARNING cfg then
           (Warning (CandidateNotFound (if verbose cfg then Some gm else None) file_name) #
            (if Suc i = sz then [Warning (NoEligible gm)] else []), Continue)
         else ([], Continue))"

text \<open>The body of the loop over the candidates, after the exclude-after test.\<close>

definition handle_entry ::
  "select_cfg \<Rightarrow> os_env \<Rightarrow> string \<Rightarrow> nat \<Rightarrow> nat \<Rightarrow> game_entry \<Rightarrow> event list \<times> flow" where
  "handle_entry cfg env gm sz i entry =
     (if use_hashes cfg then handle_hashes cfg env gm sz i entry
      else if input_dir cfg \<noteq> [] then handle_input_dir cfg env gm sz i entry
      else ([Print (add_extension (ge_name entry) (file_extension cfg))], Break))"

text \<open>
  \<^verbatim>\<open>
    size = len(entries)
    for i in range(0, size):
        entry = entries[i]
        if check_in_pattern_list(entry.name, exclude_after):
            break
        ...
  \<close>
  The walk over the candidates from index \<open>i\<close> on; it returns the events and the
  exception that ended the program, if any.
\<close>

fun walk ::
  "select_cfg \<Rightarrow> os_env \<Rightarrow> string \<Rightarrow> nat \<Rightarrow> nat \<Rightarrow> game_entry list \<Rightarrow>
   event list \<times> py_error option" where
  "walk cfg env gm sz i [] = ([], None)"
| "walk cfg env gm sz i (entry # rest) =
     (if check_in_pattern_list (ge_name entry) (exclude_after cfg) then ([], None)
      else
        (case handle_entry cfg env gm sz i entry of
           (evs, Break) \<Rightarrow> (evs, None)
         | (evs, Raise e) \<Rightarrow> (evs, Some e)
         | (evs, Continue) \<Rightarrow>
             (case walk cfg env gm sz (Suc i) rest of (evs', r) \<Rightarrow> (evs @ evs', r))))"

text \<open>
  \<^verbatim>\<open>
    if not all_regions:
        entries = [x for x in entries if x.score.region != UNSELECTED
                   or (all_regions_with_lang and x.score.languages < 0)]
  \<close>
\<close>

fun filter_entries :: "select_cfg \<Rightarrow> game_entry list \<Rightarrow> py_error + game_entry list" where
  "filter_entries cfg [] = Inr []"
| "filter_entries cfg (x # xs) =
     (case ge_score x of
        None \<Rightarrow> Inl AttributeError
      | Some s \<Rightarrow>
          (case filter_entries cfg xs of
             Inl e \<Rightarrow> Inl e
           | Inr ys \<Rightarrow>
               Inr (if sc_region s \<noteq> UNSELECTED \<or> (all_regions_with_lang cfg \<and> sc_languages s < 0)
                    then x # ys else ys)))"

definition select_family ::
  "select_cfg \<Rightarrow> os_env \<Rightarrow> string \<Rightarrow> game_entry list \<Rightarrow> event list \<times> py_error option" where
  "select_family cfg env gm entries =
     (case (if \<not> all_regions cfg then filter_entries cfg entries else Inr entries) of
        Inl e \<Rightarrow> ([], Some e)
      | Inr es \<Rightarrow> walk cfg env gm (length es) 0 es)"

text \<open>
  A candidate that the walk passes by: it is not excluded and its turn ends without
  \<open>break\<close> and without an exception. The walk reaches a candidate when it passes by all
  the candidates before it.
\<close>

fun passes_by :: "select_cfg \<Rightarrow> os_env \<Rightarrow> string \<Rightarrow> nat \<Rightarrow> nat \<Rightarrow> game_entry list \<Rightarrow> bool" where
  "passes_by cfg env gm sz i [] = True"
| "passes_by cfg env gm sz i (entry # rest) =
     (\<not> check_in_pattern_list (ge_name entry) (exclude_after cfg) \<and>
      snd (handle_entry cfg env gm sz i entry) = Continue \<and>
      passes_by cfg env gm sz (Suc i) rest)"

text \<open>
  In hash-based resolution a declared file resolves when its digest is mapped to a
  non-empty path, and is unmapped when its digest is mapped to the empty string.
\<close>

definition resolves :: "select_cfg \<Rightarrow> rom \<Rightarrow> bool" where
  "resolves cfg entry_rom =
     (case rom_input_path (hash_index cfg) entry_rom of Inl e \<Rightarrow> False | Inr p \<Rightarrow> p \<noteq> [])"

definition unmapped :: "select_cfg \<Rightarrow> rom \<Rightarrow> bool" where
  "unmapped cfg entry_rom = (rom_input_path (hash_index cfg) entry_rom = Inr [])"

fun is_rom_not_found :: "event \<Rightarrow> bool" where
  "is_rom_not_found (Warning (RomNotFound g r c)) = True"
| "is_rom_not_found ev = False"

definition rom_not_found :: "select_cfg \<Rightarrow> string \<Rightarrow> game_entry \<Rightarrow> rom \<Rightarrow> event" where
  "rom_not_found cfg gm entry entry_rom =
     Warning (RomNotFound (if verbose cfg then Some gm else None) (rom_name entry_rom) (ge_name entry))"

section \<open>Scoring\<close>

text \<open>
  Modelled from the spec: \<open>get_index\<close> of \<open>utils\<close> is not among the sources. The spec has
  the region rank be the index of the region within the ordered preference list, or
  \<open>UNSELECTED\<close> if absent, and the language rank use the index in the preference list or
  minus one: \<open>get_index(ls, i, default)\<close> is the index of the first occurrence of \<open>i\<close> in
  \<open>ls\<close>, or \<open>default\<close> when there is none.
\<close>

fun first_index :: "'a list \<Rightarrow> 'a \<Rightarrow> nat" where
  "first_index [] x = 0"
| "first_index (y # ys) x = (if y = x then 0 else Suc (first_index ys x))"

definition get_index :: "'a list \<Rightarrow> 'a \<Rightarrow> int \<Rightarrow> int" where
  "get_index ls i dflt = (if i \<in> set ls then int (first_index ls i) else dflt)"

text \<open>
  Modelled from the spec: \<open>to_int_list\<close> of \<open>utils\<close> is not among the sources. The spec has
  the padded tag become an integer vector whose comparison is the pure-string comparison
  of the padded tags, with its sign inverted unless the earliest is preferred, and has the
  sentinel \<open>Z\<close> of a release that is no prerelease map to a value larger than any padded
  real value: the vector of the character codes of the string, each multiplied by the
  multiplier.
\<close>

definition to_int_list :: "string \<Rightarrow> int \<Rightarrow> int list" where
  "to_int_list s multiplier = map (\<lambda>c. multiplier * of_char c) s"

text \<open>
  \<open>language_value\<close>, which \<open>set_scores\<close> repeats inline with \<open>-language_weight\<close> for
  \<open>weight * -1\<close>.
\<close>

definition language_value :: "string list \<Rightarrow> int \<Rightarrow> string list \<Rightarrow> int" where
  "language_value langs weight selected_languages =
     sum_list (map (\<lambda>lang. (get_index selected_languages lang (- 1) + 1) * weight * - 1) langs)"

text \<open>The body of the loop of \<open>set_scores\<close>, and the loop.\<close>

definition set_score :: "string list \<Rightarrow> string list \<Rightarrow> int \<Rightarrow> bool \<Rightarrow> bool \<Rightarrow> game_entry \<Rightarrow> game_entry" where
  "set_score selected_regions selected_languages language_weight revision_asc version_asc g =
     (let region_score = get_index selected_regions (ge_region g) UNSELECTED;
          languages_score =
            sum_list (map (\<lambda>lang. (get_index selected_languages lang (- 1) + 1) * - language_weight)
                        (ge_languages g));
          revision_int = to_int_list (ge_revision g) (if revision_asc then 1 else - 1);
          version_int = to_int_list (ge_version g) (if version_asc then 1 else - 1);
          sample_int = to_int_list (ge_sample g) (- 1);
          demo_int = to_int_list (ge_demo g) (- 1);
          beta_int = to_int_list (ge_beta g) (- 1);
          proto_int = to_int_list (ge_proto g) (- 1)
      in g\<lparr>ge_score := Some \<lparr>sc_region = region_score, sc_languages = languages_score,
             sc_revision = revision_int, sc_version = version_int, sc_sample = sample_int,
             sc_demo = demo_int, sc_beta = beta_int, sc_proto = proto_int\<rparr>\<rparr>)"

definition set_scores ::
  "game_entry list \<Rightarrow> string list \<Rightarrow> string list \<Rightarrow> int \<Rightarrow> bool \<Rightarrow> bool \<Rightarrow> game_entry list" where
  "set_scores games selected_regions selected_languages language_weight revision_asc version_asc =
     map (set_score selected_regions selected_languages language_weight revision_asc version_asc) games"

text \<open>
  The lists of the options \<open>--regions\<close> and \<open>--languages\<close>, as \<open>main\<close> builds them.
  \<open>is_valid\<close> of \<open>utils\<close> is not among the sources and is a parameter.
  \<^verbatim>\<open>
    selected_regions = [x.strip().upper() for x in arg.split(',') if is_valid(x)]
    selected_languages = [x.strip().lower()
                          for x in reversed(arg.split(',')) if is_valid(x)]
  \<close>
\<close>

definition regions_option :: "(string \<Rightarrow> bool) \<Rightarrow> string \<Rightarrow> string list" where
  "regions_option is_valid arg = map (\<lambda>x. upper (strip x)) (filter is_valid (split_on CHR '','' arg))"

definition languages_option :: "(string \<Rightarrow> bool) \<Rightarrow> string \<Rightarrow> string list" where
  "languages_option is_valid arg =
     map (\<lambda>x. lower (strip x)) (filter is_valid (rev (split_on CHR '','' arg)))"

text \<open>The languages in the order in which the user lists them.\<close>

definition languages_listed :: "(string \<Rightarrow> bool) \<Rightarrow> string \<Rightarrow> string list" where
  "languages_listed is_valid arg =
     map (\<lambda>x. lower (strip x)) (filter is_valid (split_on CHR '','' arg))"

text \<open>What one language of a candidate adds to its language score.\<close>

definition language_term :: "string list \<Rightarrow> int \<Rightarrow> string \<Rightarrow> int" where
  "language_term selected_languages language_weight lang =
     (get_index selected_languages lang (- 1) + 1) * - language_weight"

section \<open>Options\<close>

text \<open>
  The variables that \<open>main\<close> sets from the options, with the globals \<open>NO_WARNING\<close>,
  \<open>CHUNK_SIZE\<close> and \<open>THREADS\<close>.
\<close>

record options =
  o_dat_file :: string
  o_filter_bios :: bool
  o_filter_program :: bool
  o_filter_enhancement_chip :: bool
  o_filter_unlicensed :: bool
  o_filter_pirate :: bool
  o_filter_promo :: bool
  o_filter_proto :: bool
  o_filter_beta :: bool
  o_filter_demo :: bool
  o_filter_sample :: bool
  o_all_regions :: bool
  o_all_regions_with_lang :: bool
  o_revision_asc :: bool
  o_version_asc :: bool
  o_verbose :: bool
  o_use_hashes :: bool
  o_input_order :: bool
  o_selected_regions :: "string list"
  o_file_extension :: string
  o_input_dir :: string
  o_prefer_str :: string
  o_exclude_str :: string
  o_avoid_str :: string
  o_exclude_after_str :: string
  o_sep :: string
  o_ignore_case :: bool
  o_regex :: bool
  o_output_dir :: string
  o_selected_languages :: "string list"
  o_prioritize_languages :: bool
  o_prefer_parents :: bool
  o_prefer_prereleases :: bool
  o_language_weight :: int
  o_debug :: bool
  o_move :: bool
  o_NO_WARNING :: bool
  o_CHUNK_SIZE :: int
  o_THREADS :: "int option"

definition initial_options :: options where
  "initial_options =
     \<lparr>o_dat_file = [], o_filter_bios = False, o_filter_program = False,
      o_filter_enhancement_chip = False, o_filter_unlicensed = False, o_filter_pirate = False,
      o_filter_promo = False, o_filter_proto = False, o_filter_beta = False,
      o_filter_demo = False, o_filter_sample = False, o_all_regions = False,
      o_all_regions_with_lang = False, o_revision_asc = False, o_version_asc = False,
      o_verbose = False, o_use_hashes = False, o_input_order = False, o_selected_regions = [],
      o_file_extension = [], o_input_dir = [], o_prefer_str = [], o_exclude_str = [],
      o_avoid_str = [], o_exclude_after_str = [], o_sep = '','', o_ignore_case = False,
      o_regex = False, o_output_dir = [], o_selected_languages = [],
      o_prioritize_languages = False, o_prefer_parents = False, o_prefer_prereleases = False,
      o_language_weight = 3, o_debug = False, o_move = False, o_NO_WARNING = False,
      o_CHUNK_SIZE = 33554432, o_THREADS = None\<rparr>"

text \<open>
  What the option loop asks of its surroundings: the file system, \<open>os.path.expanduser\<close>,
  Python's \<open>int\<close> on a string (\<open>None\<close>: it raises \<open>ValueError\<close>) and \<open>is_valid\<close> of
  \<open>utils\<close>, which is not among the sources.
\<close>

record main_env = os_env +
  env_expanduser :: "string \<Rightarrow> string"
  env_int_of :: "string \<Rightarrow> int option"
  env_is_valid :: "string \<Rightarrow> bool"

text \<open>
  One turn of \<open>for opt, arg in opts\<close>. The statements of the turn are taken in the order
  of the source, in four steps; each step is the statements up to the next one that can
  end the program.
\<close>

definition opt_step1 :: "'a main_env_scheme \<Rightarrow> string \<Rightarrow> string \<Rightarrow> options \<Rightarrow> exit + options" where
  "opt_step1 env opt arg o1 =
     (if opt \<in> set [''-h'', ''--help''] then Inl (Exit 0)
      else
        (let o2 = (if opt \<in> set [''-r'', ''--regions'']
                   then o1\<lparr>o_selected_regions := regions_option (env_is_valid env) arg\<rparr> else o1);
             o3 = (if opt \<in> set [''-l'', ''--languages'']
                   then o2\<lparr>o_selected_languages := languages_option (env_is_valid env) arg\<rparr> else o2)
         in if opt \<in> set [''-w'', ''--language-weight''] then
              (case env_int_of env (strip arg) of
                 None \<Rightarrow> Inl (Exit 1)
               | Some w \<Rightarrow> if w \<le> 0 then Inl (Exit 1) else Inr (o3\<lparr>o_language_weight := w\<rparr>))
            else Inr o3))"

definition opt_step2 :: "'a main_env_scheme \<Rightarrow> string \<Rightarrow> string \<Rightarrow> options \<Rightarrow> exit + options" where
  "opt_step2 env opt arg o1 =
     (let no_all = (opt = ''--no-all'');
          o2 = o1\<lparr>
            o_prioritize_languages := o_prioritize_languages o1 \<or> opt = ''--prioritize-languages'',
            o_filter_bios := o_filter_bios o1 \<or> opt = ''--no-bios'' \<or> no_all,
            o_filter_program := o_filter_program o1 \<or> opt = ''--no-program'' \<or> no_all,
            o_filter_enhancement_chip :=
              o_filter_enhancement_chip o1 \<or> opt = ''--no-enhancement-chip'' \<or> no_all,
            o_filter_proto := o_filter_proto o1 \<or> opt = ''--no-proto'' \<or> no_all,
            o_filter_beta := o_filter_beta o1 \<or> opt = ''--no-beta'' \<or> no_all,
            o_filter_demo := o_filter_demo o1 \<or> opt = ''--no-demo'' \<or> no_all,
            o_filter_sample := o_filter_sample o1 \<or> opt = ''--no-sample'' \<or> no_all,
            o_filter_pirate := o_filter_pirate o1 \<or> opt = ''--no-pirate'' \<or> no_all,
            o_filter_promo := o_filter_promo o1 \<or> opt = ''--no-promo'' \<or> no_all,
            o_filter_unlicensed := o_filter_unlicensed o1 \<or> opt = ''--no-unlicensed'',
            o_all_regions := o_all_regions o1 \<or> opt = ''--all-regions'',
            o_all_regions_with_lang := o_all_regions_with_lang o1 \<or> opt = ''--all-regions-with-lang'',
            o_revision_asc := o_revision_asc o1 \<or> opt = ''--early-revisions'',
            o_version_asc := o_version_asc o1 \<or> opt = ''--early-versions'',
            o_verbose := o_verbose o1 \<or> opt \<in> set [''-v'', ''--verbose''],
            o_ignore_case := o_ignore_case o1 \<or> opt = ''--ignore-case'',
            o_regex := o_regex o1 \<or> opt = ''--regex'',
            o_sep := (if opt = ''--separator'' then strip arg else o_sep o1),
            o_input_order := o_input_order o1 \<or> opt = ''--input-order'',
            o_prefer_parents := o_prefer_parents o1 \<or> opt = ''--prefer-parents'',
            o_prefer_prereleases := o_prefer_prereleases o1 \<or> opt = ''--prefer-prereleases''\<rparr>
      in if opt \<in> set [''-d'', ''--dat''] then
           (let dat_file = env_expanduser env (strip arg)
            in if \<not> isfile env dat_file then Inl (Exit 1)
               else Inr (o2\<lparr>o_dat_file := dat_file\<rparr>))
         else Inr o2)"

definition opt_step3 :: "'a main_env_scheme \<Rightarrow> string \<Rightarrow> string \<Rightarrow> options \<Rightarrow> exit + options" where
  "opt_step3 env opt arg o1 =
     (let o2 = o1\<lparr>
            o_file_extension :=
              (if opt \<in> set [''-e'', ''--extension'']
               then dropWhile (\<lambda>c. c = CHR ''.'') (strip arg) else o_file_extension o1),
            o_use_hashes := o_use_hashes o1 \<or> opt = ''--use-hashes'',
            o_prefer_str := (if opt = ''--prefer'' then arg else o_prefer_str o1),
            o_avoid_str := (if opt = ''--avoid'' then arg else o_avoid_str o1),
            o_exclude_str := (if opt = ''--exclude'' then arg else o_exclude_str o1),
            o_exclude_after_str := (if opt = ''--exclude-after'' then arg else o_exclude_after_str o1)\<rparr>
      in if opt \<in> set [''-i'', ''--input-dir''] then
           (let input_dir = env_expanduser env (strip arg)
            in if \<not> isdir env input_dir then Inl (Exit 1)
               else Inr (o2\<lparr>o_input_dir := input_dir\<rparr>))
         else Inr o2)"

definition opt_step4 :: "'a main_env_scheme \<Rightarrow> string \<Rightarrow> string \<Rightarrow> options \<Rightarrow> exit + options" where
  "opt_step4 env opt arg o1 =
     (case (if opt \<in> set [''-o'', ''--output-dir''] then
              (let output_dir = env_expanduser env (strip arg)
               in if \<not> isdir env output_dir \<and> makedirs_fails env output_dir then Inl (Exit 1)
                  else Inr (o1\<lparr>o_output_dir := output_dir\<rparr>))
            else Inr o1) of
        Inl e \<Rightarrow> Inl e
      | Inr o2 \<Rightarrow>
          (let o3 = o2\<lparr>o_debug := o_debug o2 \<or> opt = ''--debug'',
                       o_NO_WARNING := o_NO_WARNING o2 \<or> opt = ''--no-warning''\<rparr>;
               o4 = (if o_debug o3 then o3\<lparr>o_verbose := True\<rparr> else o3);
               o5 = o4\<lparr>o_move := o_move o4 \<or> opt = ''--move''\<rparr>
           in case (if opt = ''--chunk-size'' then
                      (case env_int_of env arg of
                         None \<Rightarrow> Inl (Uncaught ValueError)
                       | Some n \<Rightarrow> Inr (o5\<lparr>o_CHUNK_SIZE := n\<rparr>))
                    else Inr o5) of
                Inl e \<Rightarrow> Inl e
              | Inr o6 \<Rightarrow>
                  (if opt = ''--threads'' then
                     (case env_int_of env arg of
                        None \<Rightarrow> Inl (Uncaught ValueError)
                      | Some n \<Rightarrow> Inr (o6\<lparr>o_THREADS := Some n\<rparr>))
                   else Inr o6)))"

definition handle_opt :: "'a main_env_scheme \<Rightarrow> options \<Rightarrow> string \<times> string \<Rightarrow> exit + options" where
  "handle_opt env o1 oa =
     (case opt_step1 env (fst oa) (snd oa) o1 of
        Inl e \<Rightarrow> Inl e
      | Inr o2 \<Rightarrow>
          (case opt_step2 env (fst oa) (snd oa) o2 of
             Inl e \<Rightarrow> Inl e
           | Inr o3 \<Rightarrow>
               (case opt_step3 env (fst oa) (snd oa) o3 of
                  Inl e \<Rightarrow> Inl e
                | Inr o4 \<Rightarrow> opt_step4 env (fst oa) (snd oa) o4)))"

fun handle_opts :: "'a main_env_scheme \<Rightarrow> options \<Rightarrow> (string \<times> string) list \<Rightarrow> exit + options" where
  "handle_opts env o1 [] = Inr o1"
| "handle_opts env o1 (oa # opts) =
     (case handle_opt env o1 oa of Inl e \<Rightarrow> Inl e | Inr o2 \<Rightarrow> handle_opts env o2 opts)"

text \<open>
  The checks between the option loop and the parsing of the pattern lists, in the order
  of the source. Each prints a message and the help and then calls \<open>sys.exit(1)\<close>, but the
  last, which calls \<open>sys.exit()\<close>.
\<close>

definition check_options :: "options \<Rightarrow> exit + options" where
  "check_options o1 =
     (if o_file_extension o1 \<noteq> [] \<and> o_use_hashes o1 then Inl (Exit 1)
      else if o_input_dir o1 = [] \<and> o_use_hashes o1 then Inl (Exit 1)
      else if o_dat_file o1 = [] then Inl (Exit 1)
      else if o_selected_regions o1 = [] then Inl (Exit 1)
      else if (o_revision_asc o1 \<or> o_version_asc o1) \<and> o_input_order o1 then Inl (Exit 1)
      else if (o_revision_asc o1 \<or> o_version_asc o1) \<and> o_prefer_parents o1 then Inl (Exit 1)
      else if o_prefer_parents o1 \<and> o_input_order o1 then Inl (Exit 1)
      else if o_output_dir o1 \<noteq> [] \<and> o_input_dir o1 = [] then Inl (Exit 1)
      else if o_ignore_case o1 \<and> o_prefer_str o1 = [] \<and> o_avoid_str o1 = [] \<and> o_exclude_str o1 = []
        then Inl (Exit 1)
      else if o_regex o1 \<and> o_prefer_str o1 = [] \<and> o_avoid_str o1 = [] \<and> o_exclude_str o1 = []
        then Inl (Exit 1)
      else if o_all_regions o1 \<and> o_all_regions_with_lang o1 then Inl (Exit 0)
      else Inr o1)"

text \<open>
  \<open>main\<close> up to the point where the pattern lists are parsed and the catalog is read;
  \<open>opts\<close> is what \<open>getopt.getopt\<close> returns (\<open>None\<close>: it raises \<open>GetoptError\<close>).
\<close>

definition main_options :: "'a main_env_scheme \<Rightarrow> (string \<times> string) list option \<Rightarrow> exit + options" where
  "main_options env opts =
     (case opts of
        None \<Rightarrow> Inl (Exit 1)
      | Some l \<Rightarrow>
          (case handle_opts env initial_options l of
             Inl e \<Rightarrow> Inl e
           | Inr o1 \<Rightarrow> check_options o1))"

section \<open>Regions and tags in names\<close>

text \<open>
  \<open>RegionData(code, pattern, languages)\<close>. Every pattern of the table is an alternation
  of literal words compiled with \<open>re.IGNORECASE\<close>, such as \<open>((USA)|(World))\<close>; it is
  represented by the list of its words, and \<open>None\<close> is the missing pattern of a region
  registered at run time.
\<close>

record region_data =
  rd_code :: string
  rd_pattern :: "string list option"
  rd_languages :: "string list"

definition RegionData :: "string \<Rightarrow> string list option \<Rightarrow> string list \<Rightarrow> region_data" where
  "RegionData code pat langs = \<lparr>rd_code = code, rd_pattern = pat, rd_languages = langs\<rparr>"

text \<open>The initial value of the global table; \<open>get_region_data\<close> appends to it.\<close>

definition COUNTRY_REGION_CORRELATION :: "region_data list" where
  "COUNTRY_REGION_CORRELATION =
     [RegionData ''ASI'' (Some [''Asia'']) [''zh''],
      RegionData ''ARG'' (Some [''Argentina'']) [''es''],
      RegionData ''AUS'' (Some [''Australia'']) [''en''],
      RegionData ''BRA'' (Some [''Brazil'']) [''pt''],
      RegionData ''CAN'' (Some [''Canada'']) [''en'', ''fr''],
      RegionData ''CHN'' (Some [''China'', ''Hong Kong'']) [''zh''],
      RegionData ''DAN'' (Some [''Denmark'']) [''da''],
      RegionData ''EUR'' (Some [''Europe'', ''World'']) [''en''],
      RegionData ''FRA'' (Some [''France'']) [''fr''],
      RegionData ''FYN'' (Some [''Finland'']) [''fi''],
      RegionData ''GER'' (Some [''Germany'']) [''de''],
      RegionData ''GRE'' (Some [''Greece'']) [''el''],
      RegionData ''ITA'' (Some [''Italy'']) [''it''],
      RegionData ''JPN'' (Some [''Japan'', ''World'']) [''ja''],
      RegionData ''HOL'' (Some [''Netherlands'']) [''nl''],
      RegionData ''KOR'' (Some [''Korea'']) [''ko''],
      RegionData ''MEX'' (Some [''Mexico'']) [''es''],
      RegionData ''NOR'' (Some [''Norway'']) [''no''],
      RegionData ''RUS'' (Some [''Russia'']) [''ru''],
      RegionData ''SPA'' (Some [''Spain'']) [''es''],
      RegionData ''SWE'' (Some [''Sweden'']) [''sv''],
      RegionData ''USA'' (Some [''USA'', ''World'']) [''en''],
      RegionData ''TAI'' (Some [''Taiwan'']) [''zh'']]"

text \<open>\<open>pattern.fullmatch(element)\<close>: the whole element is one of the words, whatever the case.\<close>

definition fullmatch :: "string list \<Rightarrow> string \<Rightarrow> bool" where
  "fullmatch alts element = list_ex (\<lambda>w. lower w = lower element) alts"

definition region_matches :: "region_data \<Rightarrow> string \<Rightarrow> bool" where
  "region_matches rd element =
     (case rd_pattern rd of None \<Rightarrow> False | Some alts \<Rightarrow> fullmatch alts element)"

text \<open>
  \<open>sections_regex.finditer(name)\<close> for \<open>\(([^()]+)\)\<close>: the contents of the
  non-overlapping matches from left to right. At an opening parenthesis the match is the
  longest run of characters that are not parentheses, when the run is not empty and a
  closing parenthesis follows it; the search goes on after the match, or else at the next
  character.
\<close>

definition is_paren :: "char \<Rightarrow> bool" where
  "is_paren c = (c = CHR ''('' \<or> c = CHR '')'')"

function sections :: "string \<Rightarrow> string list" where
  "sections [] = []"
| "sections (c # cs) =
     (if c = CHR ''('' \<and> takeWhile (\<lambda>x. \<not> is_paren x) cs \<noteq> [] \<and>
         dropWhile (\<lambda>x. \<not> is_paren x) cs \<noteq> [] \<and>
         hd (dropWhile (\<lambda>x. \<not> is_paren x) cs) = CHR '')''
      then takeWhile (\<lambda>x. \<not> is_paren x) cs # sections (tl (dropWhile (\<lambda>x. \<not> is_paren x) cs))
      else sections cs)"
  by pat_completeness auto
termination
proof (relation "measure length")
  show "wf (measure length)" by simp
next
  fix c :: char and cs :: string
  have "length (tl (dropWhile (\<lambda>x. \<not> is_paren x) cs)) \<le>
        length (dropWhile (\<lambda>x. \<not> is_paren x) cs)"
    by simp
  also have "\<dots> \<le> length cs"
    by (rule length_dropWhile_le)
  finally show "(tl (dropWhile (\<lambda>x. \<not> is_paren x) cs), c # cs) \<in> measure length"
    by simp
next
  fix c :: char and cs :: string
  show "(cs, c # cs) \<in> measure length" by simp
qed

definition elements :: "string \<Rightarrow> string list" where
  "elements section_text = map strip (split_on CHR '','' section_text)"

definition parse_region_data :: "region_data list \<Rightarrow> string \<Rightarrow> region_data list" where
  "parse_region_data table nm =
     concat (map (\<lambda>section_text.
                    concat (map (\<lambda>element. filter (\<lambda>rd. region_matches rd element) table)
                              (elements section_text)))
               (sections nm))"

datatype parse_warning = UnrecognizedRegion string | NoRegions string | NoRoms string

text \<open>
  \<open>get_region_data\<close>, called with a code that is not empty: the entry of the table with
  the uppercased code, or a new entry that is appended to the table. It returns the
  entry, the table and the warning it prints.
\<close>

definition get_region_data ::
  "bool \<Rightarrow> region_data list \<Rightarrow> string \<Rightarrow> region_data \<times> region_data list \<times> parse_warning list" where
  "get_region_data no_warning table code =
     (let code' = (if code \<noteq> [] then upper code else code) in
      case find (\<lambda>r. rd_code r = code') table of
        Some r \<Rightarrow> (r, table, [])
      | None \<Rightarrow>
          (RegionData code' None [], table @ [RegionData code' None []],
           if \<not> no_warning then [UnrecognizedRegion code'] else []))"

definition is_present :: "string \<Rightarrow> region_data list \<Rightarrow> bool" where
  "is_present code rds = list_ex (\<lambda>r. rd_code r = code) rds"

text \<open>
  \<^verbatim>\<open>
    for release in game.release:
        if release.region and not is_present(release.region, region_data):
            region_data.append(get_region_data(release.region))
  \<close>
\<close>

fun release_regions ::
  "bool \<Rightarrow> region_data list \<Rightarrow> region_data list \<Rightarrow> release list \<Rightarrow>
   region_data list \<times> region_data list \<times> parse_warning list" where
  "release_regions no_warning table rds [] = (rds, table, [])"
| "release_regions no_warning table rds (rel # rels) =
     (case rel_region rel of
        None \<Rightarrow> release_regions no_warning table rds rels
      | Some code \<Rightarrow>
          (if code \<noteq> [] \<and> \<not> is_present code rds then
             (case get_region_data no_warning table code of
                (rd, table', w) \<Rightarrow>
                  (case release_regions no_warning table' (rds @ [rd]) rels of
                     (rds', table'', ws) \<Rightarrow> (rds', table'', w @ ws)))
           else release_regions no_warning table rds rels))"

definition get_languages :: "region_data list \<Rightarrow> string list" where
  "get_languages rds =
     foldl (\<lambda>langs rd. foldl (\<lambda>l lang. if lang \<notin> set l then l @ [lang] else l) langs (rd_languages rd))
       [] rds"

text \<open>
  The tag patterns, all compiled with \<open>re.IGNORECASE\<close>. \<open>search\<close> tries a pattern at every
  position from the left and yields the first match. Each pattern below has one way to
  match at a position: the character after \<open>\s*\<close> is never a space, and the character
  after a token is never a token character.
\<close>

fun search_from :: "(string \<Rightarrow> 'a option) \<Rightarrow> string \<Rightarrow> 'a option" where
  "search_from m [] = m []"
| "search_from m (c # cs) = (case m (c # cs) of Some x \<Rightarrow> Some x | None \<Rightarrow> search_from m cs)"

definition ci_prefix :: "string \<Rightarrow> string \<Rightarrow> string option" where
  "ci_prefix lit s =
     (if length lit \<le> length s \<and> lower (take (length lit) s) = lower lit
      then Some (drop (length lit) s) else None)"

definition ci_search :: "string \<Rightarrow> string \<Rightarrow> bool" where
  "ci_search lit nm = is_substring (lower lit) (lower nm)"

definition is_letter :: "char \<Rightarrow> bool" where
  "is_letter c = (c \<in> set (lower_letters @ upper_letters))"

definition is_token_char :: "char \<Rightarrow> bool" where
  "is_token_char c = (is_letter c \<or> c \<in> set ''0123456789.'')"

text \<open>\<open>\(Word\s*([a-z0-9.]+)\)\<close> at the start of \<open>s\<close>: the token.\<close>

definition match_token :: "string \<Rightarrow> string \<Rightarrow> string option" where
  "match_token word s =
     (case ci_prefix (CHR ''('' # word) s of
        None \<Rightarrow> None
      | Some r \<Rightarrow>
          (let r' = dropWhile is_space r;
               tok = takeWhile is_token_char r';
               rest = dropWhile is_token_char r'
           in if tok \<noteq> [] \<and> rest \<noteq> [] \<and> hd rest = CHR '')'' then Some tok else None))"

text \<open>
  \<open>\(Word(?:\s*([a-z0-9.]+))?\)\<close> at the start of \<open>s\<close>: the match, with its group 1
  when the group takes part.
\<close>

definition match_prerelease :: "string \<Rightarrow> string \<Rightarrow> string option option" where
  "match_prerelease word s =
     (case match_token word s of
        Some tok \<Rightarrow> Some (Some tok)
      | None \<Rightarrow>
          (case ci_prefix (CHR ''('' # word) s of
             None \<Rightarrow> None
           | Some r \<Rightarrow> if r \<noteq> [] \<and> hd r = CHR '')'' then Some None else None))"

text \<open>\<open>\((?:Test\s*)?Program\)\<close> and \<open>\(Enhancement\s*Chip\)\<close> at the start of \<open>s\<close>.\<close>

definition match_program :: "string \<Rightarrow> unit option" where
  "match_program s =
     (if ci_prefix ''(Program)'' s \<noteq> None then Some ()
      else (case ci_prefix ''(Test'' s of
              None \<Rightarrow> None
            | Some r \<Rightarrow> if ci_prefix ''Program)'' (dropWhile is_space r) \<noteq> None then Some () else None))"

definition match_enhancement_chip :: "string \<Rightarrow> unit option" where
  "match_enhancement_chip s =
     (case ci_prefix ''(Enhancement'' s of
        None \<Rightarrow> None
      | Some r \<Rightarrow> if ci_prefix ''Chip)'' (dropWhile is_space r) \<noteq> None then Some () else None)"

text \<open>\<open>\(([a-z]{2}(?:[,+][a-z]{2})*)\)\<close> at the start of \<open>s\<close>: group 1.\<close>

fun more_languages :: "string \<Rightarrow> string \<times> string" where
  "more_languages (s # a # b # rest) =
     (if (s = CHR '','' \<or> s = CHR ''+'') \<and> is_letter a \<and> is_letter b
      then (case more_languages rest of (cap, r) \<Rightarrow> (s # a # b # cap, r))
      else ([], s # a # b # rest))"
| "more_languages xs = ([], xs)"

fun match_languages :: "string \<Rightarrow> string option" where
  "match_languages (p # a # b # rest) =
     (if p = CHR ''('' \<and> is_letter a \<and> is_letter b
      then (case more_languages rest of
              (cap, r) \<Rightarrow> if r \<noteq> [] \<and> hd r = CHR '')'' then Some (a # b # cap) else None)
      else None)"
| "match_languages xs = None"

definition beta_regex :: "string \<Rightarrow> string option option" where
  "beta_regex nm = search_from (match_prerelease ''Beta'') nm"

definition proto_regex :: "string \<Rightarrow> string option option" where
  "proto_regex nm = search_from (match_prerelease ''Proto'') nm"

definition sample_regex :: "string \<Rightarrow> string option option" where
  "sample_regex nm = search_from (match_prerelease ''Sample'') nm"

definition demo_regex :: "string \<Rightarrow> string option option" where
  "demo_regex nm = search_from (match_prerelease ''Demo'') nm"

definition rev_regex :: "string \<Rightarrow> string option" where
  "rev_regex nm = search_from (match_token ''Rev'') nm"

definition version_regex :: "string \<Rightarrow> string option" where
  "version_regex nm = search_from (match_token ''v'') nm"

definition languages_regex :: "string \<Rightarrow> string option" where
  "languages_regex nm = search_from match_languages nm"

text \<open>
  Modelled from the spec: \<open>get_or_default\<close> of \<open>utils\<close> is not among the sources. The
  spec has each tag be the captured token, or a default when there is none (zero for an
  unset revision or version, the sentinel for a release that is no prerelease).
\<close>

definition get_or_default :: "string option option \<Rightarrow> string \<Rightarrow> string" where
  "get_or_default m dflt =
     (case m of Some (Some tok) \<Rightarrow> if tok \<noteq> [] then tok else dflt | _ \<Rightarrow> dflt)"

definition parse_revision :: "string \<Rightarrow> string" where
  "parse_revision nm = get_or_default (map_option Some (rev_regex nm)) ''0''"

definition parse_version :: "string \<Rightarrow> string" where
  "parse_version nm = get_or_default (map_option Some (version_regex nm)) ''0''"

definition parse_prerelease :: "string option option \<Rightarrow> string" where
  "parse_prerelease m = get_or_default m NOT_PRERELEASE"

definition parse_languages :: "string \<Rightarrow> string list" where
  "parse_languages nm =
     (case languages_regex nm of
        None \<Rightarrow> []
      | Some cap \<Rightarrow> concat (map (\<lambda>entry. map lower (split_on CHR ''+'' entry)) (split_on CHR '','' cap)))"

text \<open>The filter flags of \<open>parse_games\<close>, in the order of its parameters.\<close>

record filters =
  filter_bios :: bool
  filter_program :: bool
  filter_enhancement_chip :: bool
  filter_pirate :: bool
  filter_promo :: bool
  filter_unlicensed :: bool
  filter_proto :: bool
  filter_beta :: bool
  filter_demo :: bool
  filter_sample :: bool

text \<open>Whether one of the \<open>continue\<close> statements of \<open>parse_games\<close> drops the game.\<close>

definition filtered_out :: "filters \<Rightarrow> pattern list \<Rightarrow> string \<Rightarrow> bool" where
  "filtered_out flt exclude nm =
     ((filter_bios flt \<and> ci_search ''[BIOS]'' nm) \<or>
      (filter_unlicensed flt \<and> ci_search ''(Unl)'' nm) \<or>
      (filter_pirate flt \<and> ci_search ''(Pirate)'' nm) \<or>
      (filter_promo flt \<and> ci_search ''(Promo)'' nm) \<or>
      (filter_program flt \<and> search_from match_program nm \<noteq> None) \<or>
      (filter_enhancement_chip flt \<and> search_from match_enhancement_chip nm \<noteq> None) \<or>
      (filter_beta flt \<and> beta_regex nm \<noteq> None) \<or>
      (filter_demo flt \<and> demo_regex nm \<noteq> None) \<or>
      (filter_sample flt \<and> sample_regex nm \<noteq> None) \<or>
      (filter_proto flt \<and> proto_regex nm \<noteq> None) \<or>
      check_in_pattern_list nm exclude)"

text \<open>
  The candidate that \<open>parse_games\<close> builds for one region of a game, and the body of
  its loop over the games: \<open>None\<close> when the game is dropped, else its candidates; with them
  the table and the warnings.
\<close>

definition make_entry :: "nat \<Rightarrow> game \<Rightarrow> string list \<Rightarrow> string \<Rightarrow> game_entry" where
  "make_entry input_index g langs rgn =
     \<lparr>ge_is_bad = ci_search ''[b]'' (game_name g),
      ge_is_prerelease =
        (beta_regex (game_name g) \<noteq> None \<or> demo_regex (game_name g) \<noteq> None \<or>
         sample_regex (game_name g) \<noteq> None \<or> proto_regex (game_name g) \<noteq> None),
      ge_region = rgn,
      ge_languages = langs,
      ge_input_index = input_index,
      ge_revision = parse_revision (game_name g),
      ge_version = parse_version (game_name g),
      ge_sample = parse_prerelease (sample_regex (game_name g)),
      ge_demo = parse_prerelease (demo_regex (game_name g)),
      ge_beta = parse_prerelease (beta_regex (game_name g)),
      ge_proto = parse_prerelease (proto_regex (game_name g)),
      ge_is_parent = (\<not> truthy (game_cloneof g)),
      ge_name = game_name g,
      ge_roms = game_rom g,
      ge_score = None\<rparr>"

definition parse_game ::
  "filters \<Rightarrow> pattern list \<Rightarrow> bool \<Rightarrow> region_data list \<Rightarrow> nat \<Rightarrow> game \<Rightarrow>
   game_entry list option \<times> region_data list \<times> parse_warning list" where
  "parse_game flt exclude no_warning table input_index g =
     (if filtered_out flt exclude (game_name g) then (None, table, [])
      else
        (case release_regions no_warning table (parse_region_data table (game_name g))
                (game_release g) of
           (rds, table', ws) \<Rightarrow>
             (let langs = (if parse_languages (game_name g) \<noteq> []
                           then parse_languages (game_name g) else get_languages rds);
                  region_codes = map rd_code rds;
                  game_entries = map (make_entry input_index g langs) region_codes
              in (Some game_entries, table',
                  ws @
                  (if game_entries = [] \<and> \<not> no_warning then [NoRegions (game_name g)] else []) @
                  (if game_rom g = [] \<and> \<not> no_warning then [NoRoms (game_name g)] else [])))))"

text \<open>
  \<open>parse_games\<close>: the dictionary from the name of the parent to the candidates of the
  family, in the order of insertion.
\<close>

definition parent_name :: "game \<Rightarrow> string" where
  "parent_name g =
     (case game_cloneof g of
        None \<Rightarrow> game_name g
      | Some c \<Rightarrow> if c \<noteq> [] then c else game_name g)"

fun parse_games_from ::
  "filters \<Rightarrow> pattern list \<Rightarrow> bool \<Rightarrow> region_data list \<Rightarrow> nat \<Rightarrow>
   (string \<times> game_entry list) list \<Rightarrow> game list \<Rightarrow>
   (string \<times> game_entry list) list \<times> region_data list \<times> parse_warning list" where
  "parse_games_from flt exclude no_warning table input_index games [] = (games, table, [])"
| "parse_games_from flt exclude no_warning table input_index games (g # gs) =
     (case parse_game flt exclude no_warning table input_index g of
        (None, table', ws) \<Rightarrow>
          (case parse_games_from flt exclude no_warning table' (Suc input_index) games gs of
             (games', table'', ws') \<Rightarrow> (games', table'', ws @ ws'))
      | (Some game_entries, table', ws) \<Rightarrow>
          (case parse_games_from flt exclude no_warning table' (Suc input_index)
                  (if game_entries = [] then games
                   else (case map_of games (parent_name g) of
                           None \<Rightarrow> AList.update (parent_name g) game_entries games
                         | Some old \<Rightarrow> AList.update (parent_name g) (old @ game_entries) games))
                  gs of
             (games', table'', ws') \<Rightarrow> (games', table'', ws @ ws')))"

definition parse_games ::
  "filters \<Rightarrow> pattern list \<Rightarrow> bool \<Rightarrow> region_data list \<Rightarrow> game list \<Rightarrow>
   (string \<times> game_entry list) list \<times> region_data list \<times> parse_warning list" where
  "parse_games flt exclude no_warning table gs =
     parse_games_from flt exclude no_warning table 0 [] gs"

section \<open>Padding, keys and the order of a family\<close>

text \<open>
  Modelled from the spec: \<open>add_padding\<close> of \<open>utils\<close> is not among the sources. The spec
  has each tag be split into its numeric fields at the boundaries with other characters,
  and each field position be padded with zeros, over the whole family, to the largest
  width that any candidate has at that position. A string is cut into its maximal runs of
  digits and of other characters; the numeric fields are the runs of digits; the fields
  are padded on the left and the other runs are kept as they are.
\<close>

definition is_digit :: "char \<Rightarrow> bool" where
  "is_digit c = (c \<in> set ''0123456789'')"

fun runs :: "string \<Rightarrow> (bool \<times> string) list" where
  "runs [] = []"
| "runs (c # cs) =
     (case runs cs of
        [] \<Rightarrow> [(is_digit c, [c])]
      | (d, r) # rs \<Rightarrow> if d = is_digit c then (d, c # r) # rs else (is_digit c, [c]) # (d, r) # rs)"

definition numeric_fields :: "string \<Rightarrow> string list" where
  "numeric_fields s = map snd (filter fst (runs s))"

fun zip_max :: "nat list \<Rightarrow> nat list \<Rightarrow> nat list" where
  "zip_max [] ys = ys"
| "zip_max xs [] = xs"
| "zip_max (x # xs) (y # ys) = max x y # zip_max xs ys"

definition max_widths :: "string list \<Rightarrow> nat list" where
  "max_widths strings = foldr (\<lambda>s. zip_max (map length (numeric_fields s))) strings []"

definition pad_field :: "nat \<Rightarrow> string \<Rightarrow> string" where
  "pad_field w f = replicate (w - length f) CHR ''0'' @ f"

fun pad_runs :: "nat list \<Rightarrow> (bool \<times> string) list \<Rightarrow> string list" where
  "pad_runs ws [] = []"
| "pad_runs ws ((False, r) # rs) = r # pad_runs ws rs"
| "pad_runs [] ((True, r) # rs) = r # pad_runs [] rs"
| "pad_runs (w # ws) ((True, r) # rs) = pad_field w r # pad_runs ws rs"

definition add_padding :: "string list \<Rightarrow> string list" where
  "add_padding strings = map (\<lambda>s. concat (pad_runs (max_widths strings) (runs s))) strings"

text \<open>
  \<open>pad_values\<close>:
  \<^verbatim>\<open>
    padded = add_padding([get_function(g) for g in games])
    for i in range(0, len(padded)):
        set_function(games[i], padded[i])
  \<close>
\<close>

fun set_all :: "('g \<Rightarrow> string \<Rightarrow> 'g) \<Rightarrow> 'g list \<Rightarrow> string list \<Rightarrow> py_error + 'g list" where
  "set_all set_function gs [] = Inr gs"
| "set_all set_function [] (p # ps) = Inl IndexError"
| "set_all set_function (g # gs) (p # ps) =
     (case set_all set_function gs ps of
        Inl e \<Rightarrow> Inl e
      | Inr gs' \<Rightarrow> Inr (set_function g p # gs'))"

definition pad_values ::
  "'g list \<Rightarrow> ('g \<Rightarrow> string) \<Rightarrow> ('g \<Rightarrow> string \<Rightarrow> 'g) \<Rightarrow> py_error + 'g list" where
  "pad_values games get_function set_function =
     set_all set_function games (add_padding (map get_function games))"

text \<open>
  Modelled from the spec: \<open>GameEntryKeyGenerator\<close> of \<open>classes\<close> is not among the sources.
  The spec lists the stages of the key in order, a stage that is disabled being left out:
  the known-bad-dump flag; prerelease against released, in the configured direction;
  membership in the avoid list, when the list is not empty; region rank and language
  rank, or the reverse when languages are prioritized; the parent flag, when parents are
  preferred; the discovery index, when the input order is kept; membership in the prefer
  list, when the list is not empty; the revision, version, sample, demo, beta and proto
  vectors; the number of distinct languages, more being better; and the parent flag
  again. A key is the list of its stages, each stage a list of integers (a flag or a
  number is a list of one); keys are compared as Python compares tuples and lists,
  lexicographically, and the smaller key is the better one.
\<close>

record key_cfg =
  k_prioritize_languages :: bool
  k_prefer_prereleases :: bool
  k_prefer_parents :: bool
  k_input_order :: bool
  k_prefer :: "pattern list"
  k_avoid :: "pattern list"

definition flag :: "bool \<Rightarrow> int list" where
  "flag b = [if b then 1 else 0]"

definition generate :: "key_cfg \<Rightarrow> game_entry \<Rightarrow> py_error + int list list" where
  "generate kc g =
     (case ge_score g of
        None \<Rightarrow> Inl AttributeError
      | Some s \<Rightarrow>
          Inr ([flag (ge_is_bad g),
                flag (if k_prefer_prereleases kc then \<not> ge_is_prerelease g else ge_is_prerelease g)] @
               (if k_avoid kc \<noteq> [] then [flag (check_in_pattern_list (ge_name g) (k_avoid kc))] else []) @
               (if k_prioritize_languages kc then [[sc_languages s], [sc_region s]]
                else [[sc_region s], [sc_languages s]]) @
               (if k_prefer_parents kc then [flag (\<not> ge_is_parent g)] else []) @
               (if k_input_order kc then [[int (ge_input_index g)]] else []) @
               (if k_prefer kc \<noteq> [] then [flag (\<not> check_in_pattern_list (ge_name g) (k_prefer kc))] else []) @
               [sc_revision s, sc_version s, sc_sample s, sc_demo s, sc_beta s, sc_proto s,
                [- int (card (set (ge_languages g)))],
                flag (\<not> ge_is_parent g)]))"

text \<open>
  \<open>games.sort(key=key_generator.generate)\<close>: the keys are computed, the list is sorted
  by them, stably and in ascending order, and the keys are dropped.
\<close>

fun keyed :: "key_cfg \<Rightarrow> game_entry list \<Rightarrow> py_error + (int list list \<times> game_entry) list" where
  "keyed kc [] = Inr []"
| "keyed kc (g # gs) =
     (case generate kc g of
        Inl e \<Rightarrow> Inl e
      | Inr k \<Rightarrow> (case keyed kc gs of Inl e \<Rightarrow> Inl e | Inr kgs \<Rightarrow> Inr ((k, g) # kgs)))"

definition sort_games :: "key_cfg \<Rightarrow> game_entry list \<Rightarrow> py_error + game_entry list" where
  "sort_games kc games =
     (case keyed kc games of Inl e \<Rightarrow> Inl e | Inr kgs \<Rightarrow> Inr (map snd (sort_key fst kgs)))"

text \<open>
  What \<open>main\<close> does to one family before the selection: the six calls of \<open>pad_values\<close>
  and \<open>set_scores\<close>, and then the sort.
\<close>

definition bind :: "py_error + 'a \<Rightarrow> ('a \<Rightarrow> py_error + 'b) \<Rightarrow> py_error + 'b" where
  "bind m f = (case m of Inl e \<Rightarrow> Inl e | Inr x \<Rightarrow> f x)"

definition pad_and_score ::
  "string list \<Rightarrow> string list \<Rightarrow> int \<Rightarrow> bool \<Rightarrow> bool \<Rightarrow> game_entry list \<Rightarrow>
   py_error + game_entry list" where
  "pad_and_score selected_regions selected_languages language_weight revision_asc version_asc games =
     bind (pad_values games ge_version (\<lambda>g v. g\<lparr>ge_version := v\<rparr>)) (\<lambda>g1.
     bind (pad_values g1 ge_revision (\<lambda>g v. g\<lparr>ge_revision := v\<rparr>)) (\<lambda>g2.
     bind (pad_values g2 ge_sample (\<lambda>g v. g\<lparr>ge_sample := v\<rparr>)) (\<lambda>g3.
     bind (pad_values g3 ge_demo (\<lambda>g v. g\<lparr>ge_demo := v\<rparr>)) (\<lambda>g4.
     bind (pad_values g4 ge_beta (\<lambda>g v. g\<lparr>ge_beta := v\<rparr>)) (\<lambda>g5.
     bind (pad_values g5 ge_proto (\<lambda>g v. g\<lparr>ge_proto := v\<rparr>)) (\<lambda>g6.
     Inr (set_scores g6 selected_regions selected_languages language_weight revision_asc
            version_asc)))))))"

definition rank_family ::
  "key_cfg \<Rightarrow> string list \<Rightarrow> string list \<Rightarrow> int \<Rightarrow> bool \<Rightarrow> bool \<Rightarrow> game_entry list \<Rightarrow>
   py_error + game_entry list" where
  "rank_family kc selected_regions selected_languages language_weight revision_asc version_asc games =
     bind (pad_and_score selected_regions selected_languages language_weight revision_asc
             version_asc games)
       (sort_games kc)"

text \<open>
  The six tags of a candidate that are padded and scored: where the tag is kept in the
  candidate, where its vector is kept in the score, and the multiplier that \<open>set_scores\<close>
  passes to \<open>to_int_list\<close> for it, which is 1 only for a revision or a version of which
  the earliest is preferred.
\<close>

datatype tag = Version | Revision | Sample | Demo | Beta | Proto











section \<open>A small catalog and repository\<close>

text \<open>
  Concrete inputs on which the definitions above are evaluated. \<open>ex_sha1\<close> stands in
  for SHA-1 where a concrete digest function is needed; it returns its argument.
\<close>

definition ex_sha1 :: "string \<Rightarrow> string" where
  "ex_sha1 bytes = bytes"

definition ex_fs :: filesystem where
  "ex_fs p = (if p = ''roms/pack.zip''
              then \<lparr>c_file = Opened (''PK'', None), c_zip = Opened [Opened (''DATA'', None)]\<rparr>
              else \<lparr>c_file = Opened (''DATA'', None), c_zip = Raises BadZipFile\<rparr>)"

text \<open>A repository whose archives cannot be opened: \<open>ZipFile\<close> raises an \<open>OSError\<close>.\<close>

definition ex_locked_fs :: filesystem where
  "ex_locked_fs p = \<lparr>c_file = Opened (''PK'', None), c_zip = Raises OSError\<rparr>"

definition ex_catalog :: "(string \<Rightarrow> string) \<Rightarrow> game list" where
  "ex_catalog H =
     [\<lparr>game_name = ''Game (USA)'', game_cloneof = None, game_release = [],
       game_rom = [\<lparr>rom_name = ''game.bin'', rom_sha1 = Some (H ''DATA'')\<rparr>]\<rparr>]"

definition ex_score :: score where
  "ex_score = \<lparr>sc_region = 0, sc_languages = 0, sc_revision = [], sc_version = [],
     sc_sample = [], sc_demo = [], sc_beta = [], sc_proto = []\<rparr>"

definition ex_entry :: "string \<Rightarrow> rom list \<Rightarrow> game_entry" where
  "ex_entry nm rs =
     \<lparr>ge_is_bad = False, ge_is_prerelease = False, ge_region = ''USA'', ge_languages = [''en''],
      ge_input_index = 0, ge_revision = ''0'', ge_version = ''0'', ge_sample = ''Z'',
      ge_demo = ''Z'', ge_beta = ''Z'', ge_proto = ''Z'', ge_is_parent = True,
      ge_name = nm, ge_roms = rs, ge_score = Some ex_score\<rparr>"

definition ex_env :: os_env where
  "ex_env = \<lparr>isfile = (\<lambda>p. False), isdir = (\<lambda>p. False), makedirs_fails = (\<lambda>p. False),
     copystat_fails = (\<lambda>p q. False)\<rparr>"

definition ex_cfg :: select_cfg where
  "ex_cfg = \<lparr>use_hashes = True, input_dir = ''roms'', output_dir = [], file_extension = [],
     move = False, verbose = False, NO_WARNING = False, all_regions = False,
     all_regions_with_lang = False,
     exclude_after = [literal_pattern False ''Virtual Console''],
     hash_index = [(''aa'', ''roms/a.bin''), (''bb'', [])]\<rparr>"

definition ex_rom_a :: rom where
  "ex_rom_a = \<lparr>rom_name = ''a.bin'', rom_sha1 = Some ''AA''\<rparr>"

definition ex_rom_b :: rom where
  "ex_rom_b = \<lparr>rom_name = ''b.bin'', rom_sha1 = Some ''BB''\<rparr>"

text \<open>
  A family of two candidates: a release for Japan on the Virtual Console and a beta for
  the USA.
\<close>

definition ex_jpn_vc :: game_entry where
  "ex_jpn_vc = (ex_entry ''Game (Japan) (Virtual Console)'' [ex_rom_b])
     \<lparr>ge_region := ''JPN'', ge_languages := [''ja''], ge_score := None\<rparr>"

definition ex_usa_beta :: game_entry where
  "ex_usa_beta = (ex_entry ''Game (USA) (Beta)'' [ex_rom_a])
     \<lparr>ge_is_prerelease := True, ge_input_index := 1, ge_is_parent := False, ge_score := None\<rparr>"

definition ex_main_env :: main_env where
  "ex_main_env =
     \<lparr>isfile = (\<lambda>p. p = ''snes.dat''), isdir = (\<lambda>p. False), makedirs_fails = (\<lambda>p. False),
      copystat_fails = (\<lambda>p q. False), env_expanduser = (\<lambda>p. p), env_int_of = (\<lambda>s. None),
      env_is_valid = (\<lambda>x. strip x \<noteq> [])\<rparr>"

definition ex_world_game :: game where
  "ex_world_game = \<lparr>game_name = ''Game (World)'', game_cloneof = None, game_release = [],
     game_rom = [ex_rom_a]\<rparr>"

text \<open>A game whose releases declare the region of its name, and another region twice.\<close>

definition ex_release_game :: game where
  "ex_release_game = \<lparr>game_name = ''Game (USA)'', game_cloneof = None,
     game_release = [\<lparr>rel_region = Some ''USA''\<rparr>, \<lparr>rel_region = Some ''EUR''\<rparr>,
                     \<lparr>rel_region = Some ''EUR''\<rparr>],
     game_rom = [ex_rom_a]\<rparr>"

definition ex_twice_game :: game where
  "ex_twice_game = \<lparr>game_name = ''Game (USA) (USA)'', game_cloneof = None, game_release = [],
     game_rom = [ex_rom_a]\<rparr>"

definition no_filters :: filters where
  "no_filters = \<lparr>filter_bios = False, filter_program = False, filter_enhancement_chip = False,
     filter_pirate = False, filter_promo = False, filter_unlicensed = False, filter_proto = False,
     filter_beta = False, filter_demo = False, filter_sample = False\<rparr>"

definition default_key_cfg :: key_cfg where
  "default_key_cfg = \<lparr>k_prioritize_languages = False, k_prefer_prereleases = False,
     k_prefer_parents = False, k_input_order = False, k_prefer = [], k_avoid = []\<rparr>"


section \<open>The cancellation flag\<close>

lemma QUIT_mono: "QUIT q t \<Longrightarrow> t \<le> t' \<Longrightarrow> QUIT q t'"
  by (auto simp: QUIT_def split: option.splits)

lemma QUIT_None [simp]: "\<not> QUIT None t"
  by (simp add: QUIT_def)

lemma compute_hash_loop_clock:
  "compute_hash_loop q n t hasher data err = (h', t') \<Longrightarrow> t < t'"
proof (induction q n t hasher data err rule: compute_hash_loop.induct)
  case (1 q n t hasher data err)
  show ?case
  proof (cases "QUIT q t")
    case True
    with "1.prems" show ?thesis by (simp add: compute_hash_loop.simps)
  next
    case nq: False
    show ?thesis
    proof (cases "read_raises n data err")
      case (Some e)
      with nq "1.prems" show ?thesis by (simp add: compute_hash_loop.simps [of q n t])
    next
      case nr: None
      show ?thesis
      proof (cases "read_chunk n data = []")
        case True
        show ?thesis
        proof (cases "QUIT q (Suc t)")
          case q1: True
          with nq nr True "1.prems"
          have "compute_hash_loop q n (Suc (Suc t)) (hasher @ read_chunk n data) (read_rest n data) err
                = (h', t')"
            by (simp add: compute_hash_loop.simps [of q n t])
          with "1.IH"(1) nq nr True q1 have "Suc (Suc t) < t'" by simp
          then show ?thesis by simp
        next
          case False
          with nq nr True "1.prems" show ?thesis by (simp add: compute_hash_loop.simps [of q n t])
        qed
      next
        case False
        with nq nr "1.prems"
        have "compute_hash_loop q n (Suc t) (hasher @ read_chunk n data) (read_rest n data) err
              = (h', t')"
          by (simp add: compute_hash_loop.simps [of q n t])
        with "1.IH"(2) nq nr False have "Suc t < t'" by simp
        then show ?thesis by simp
      qed
    qed
  qed
qed

text \<open>
  A run whose last reading of the flag is still \<open>False\<close> is the run of a worker that is
  never cancelled.
\<close>

lemma compute_hash_loop_complete:
  "compute_hash_loop q n t hasher data err = (h', t') \<Longrightarrow> \<not> QUIT q t' \<Longrightarrow>
   compute_hash_loop None n t hasher data err = (h', t')"
proof (induction q n t hasher data err rule: compute_hash_loop.induct)
  case (1 q n t hasher data err)
  from "1.prems"(1) have lt: "t < t'" by (rule compute_hash_loop_clock)
  with "1.prems"(2) have nq: "\<not> QUIT q t" using QUIT_mono [of q t t'] by auto
  show ?case
  proof (cases "read_raises n data err")
    case (Some e)
    with nq "1.prems" show ?thesis
      by (simp add: compute_hash_loop.simps [of q n t] compute_hash_loop.simps [of None n t])
  next
    case nr: None
    show ?thesis
    proof (cases "read_chunk n data = []")
      case True
      show ?thesis
      proof (cases "QUIT q (Suc t)")
        case q1: True
        with lt "1.prems"(2) have "t' = Suc t \<or> False" using QUIT_mono [of q "Suc t" t'] by auto
        with nq nr True q1 "1.prems" show ?thesis
          using compute_hash_loop_clock [of q n "Suc (Suc t)" "hasher @ read_chunk n data"
              "read_rest n data" err h' t']
          by (simp add: compute_hash_loop.simps [of q n t])
      next
        case False
        with nq nr True "1.prems" show ?thesis
          by (simp add: compute_hash_loop.simps [of q n t] compute_hash_loop.simps [of None n t])
      qed
    next
      case False
      with nq nr "1.prems"
      have r: "compute_hash_loop q n (Suc t) (hasher @ read_chunk n data) (read_rest n data) err
               = (h', t')"
        by (simp add: compute_hash_loop.simps [of q n t])
      from "1.IH"(2) [OF nq nr False r "1.prems"(2)] nr False show ?thesis
        by (simp add: compute_hash_loop.simps [of None n t])
    qed
  qed
qed

lemma compute_hash_clock: "compute_hash H q n t s = (d, t') \<Longrightarrow> t < t'"
  by (auto simp: compute_hash_def split: prod.splits sum.splits dest: compute_hash_loop_clock)

lemma compute_hash_complete:
  "compute_hash H q n t s = (d, t') \<Longrightarrow> \<not> QUIT q t' \<Longrightarrow>
   compute_hash H None n t s = (d, t')"
  by (auto simp: compute_hash_def split: prod.splits sum.splits dest: compute_hash_loop_complete)

lemma hash_members_clock:
  "hash_members H q n p t result ms = (e, r, t') \<Longrightarrow> t \<le> t'"
proof (induction ms arbitrary: t result)
  case Nil
  then show ?case by simp
next
  case (Cons m ms)
  show ?case
  proof (cases "QUIT q t")
    case True
    with Cons.prems have "hash_members H q n p (Suc t) result ms = (e, r, t')" by simp
    from Cons.IH [OF this] show ?thesis by simp
  next
    case nq: False
    show ?thesis
    proof (cases m)
      case (Raises x)
      with nq Cons.prems show ?thesis by simp
    next
      case (Opened s)
      obtain d t1 where c: "compute_hash H q n (Suc t) s = (d, t1)"
        by (cases "compute_hash H q n (Suc t) s")
      show ?thesis
      proof (cases d)
        case (Inl x)
        with nq Opened c Cons.prems compute_hash_clock [OF c] show ?thesis by simp
      next
        case (Inr digest)
        with nq Opened c Cons.prems
        have "hash_members H q n p t1 (AList.update digest p result) ms = (e, r, t')"
          by simp
        from Cons.IH [OF this] compute_hash_clock [OF c] show ?thesis by simp
      qed
    qed
  qed
qed

lemma hash_members_complete:
  "hash_members H q n p t result ms = (e, r, t') \<Longrightarrow> \<not> QUIT q t' \<Longrightarrow>
   hash_members H None n p t result ms = (e, r, t')"
proof (induction ms arbitrary: t result)
  case Nil
  then show ?case by simp
next
  case (Cons m ms)
  from Cons.prems(1) have le: "t \<le> t'" by (rule hash_members_clock)
  with Cons.prems(2) have nq: "\<not> QUIT q t" using QUIT_mono [of q t t'] by auto
  show ?case
  proof (cases m)
    case (Raises x)
    with nq Cons.prems show ?thesis by simp
  next
    case (Opened s)
    obtain d t1 where c: "compute_hash H q n (Suc t) s = (d, t1)"
      by (cases "compute_hash H q n (Suc t) s")
    show ?thesis
    proof (cases d)
      case (Inl x)
      with nq Opened c Cons.prems have "t1 = t'" by simp
      with compute_hash_complete [OF c] Cons.prems(2) nq Opened c Inl Cons.prems(1)
      show ?thesis by simp
    next
      case (Inr digest)
      with nq Opened c Cons.prems
      have r: "hash_members H q n p t1 (AList.update digest p result) ms = (e, r, t')"
        by simp
      from hash_members_clock [OF r] Cons.prems(2) have "\<not> QUIT q t1"
        using QUIT_mono [of q t1 t'] by auto
      from compute_hash_complete [OF c this] Cons.IH [OF r Cons.prems(2)] Opened Inr
      show ?thesis by simp
    qed
  qed
qed

lemma hash_compressed_clock:
  "hash_compressed H q n fs t p = (e, r, t') \<Longrightarrow> t \<le> t'"
  by (auto simp: hash_compressed_def split: opened.splits dest: hash_members_clock)

lemma hash_compressed_complete:
  "hash_compressed H q n fs t p = (e, r, t') \<Longrightarrow> \<not> QUIT q t' \<Longrightarrow>
   hash_compressed H None n fs t p = (e, r, t')"
  by (auto simp: hash_compressed_def split: opened.splits dest: hash_members_complete)

lemma hash_uncompressed_clock:
  "hash_uncompressed H q n fs t p result = (r, t') \<Longrightarrow> t \<le> t'"
  by (auto simp: hash_uncompressed_def split: opened.splits prod.splits sum.splits option.splits
      if_splits dest!: compute_hash_clock)

lemma hash_uncompressed_complete:
  assumes "hash_uncompressed H q n fs t p result = (r, t')" "\<not> QUIT q t'"
  shows "hash_uncompressed H None n fs t p result = (r, t')"
proof (cases "c_file (fs p)")
  case (Raises x)
  with assms show ?thesis by (simp add: hash_uncompressed_def)
next
  case (Opened s)
  obtain d t1 where c: "compute_hash H q n t s = (d, t1)"
    by (cases "compute_hash H q n t s")
  with assms(1) Opened have "t1 = t'"
    by (auto simp: hash_uncompressed_def split: sum.splits option.splits if_splits)
  with compute_hash_complete [OF c] assms(2) have "compute_hash H None n t s = (d, t1)" by simp
  with assms(1) Opened c show ?thesis by (simp add: hash_uncompressed_def)
qed

lemma process_file_complete:
  assumes "process_file H q n fs t fd = (r, t')" "\<not> QUIT q t'"
  shows "process_file H None n fs t fd = (r, t')"
proof (cases "is_zip (fd_path fd)")
  case False
  with assms hash_uncompressed_complete [of H q n fs t "fd_path fd" "[]" r t'] show ?thesis
    by (simp add: process_file_def)
next
  case True
  obtain e res t1 where z: "hash_compressed H q n fs t (fd_path fd) = (e, res, t1)"
    by (cases "hash_compressed H q n fs t (fd_path fd)")
  show ?thesis
  proof (cases "e = None \<or> e = Some BadZipFile")
    case c: True
    with assms(1) True z have u: "hash_uncompressed H q n fs t1 (fd_path fd) res = (r, t')"
      by (auto simp: process_file_def)
    from hash_uncompressed_clock [OF u] assms(2) have "\<not> QUIT q t1"
      using QUIT_mono [of q t1 t'] by auto
    from hash_compressed_complete [OF z this] hash_uncompressed_complete [OF u assms(2)] c True
    show ?thesis by (auto simp: process_file_def)
  next
    case c: False
    then obtain x where x: "e = Some x" "x \<noteq> BadZipFile" by (cases e) auto
    with assms(1) True z have "t1 = t'" "r = Inl x" by (auto simp: process_file_def)
    with hash_compressed_complete [OF z] assms(2) x True show ?thesis
      by (simp add: process_file_def)
  qed
qed

text \<open>
  C6. If the flag is set before or during the hashing of a file, that is, if the worker's
  view turns \<open>True\<close> no later than its last reading of the flag, the worker returns the
  empty mapping whenever \<open>process_file\<close> returns at all; when \<open>process_file\<close> raises, the
  worker raises the same exception and returns no mapping. A mapping that a worker
  returns is always either the empty one or the one that the uncancelled hashing of the
  file yields, never a partial one; and merging an empty mapping leaves the index as it
  is.
\<close>

theorem worker_cancelled:
  "(\<forall>k. q = Some k \<and> k \<le> snd (process_file H q n fs 1 fd) \<longrightarrow>
        (case fst (process_file H q n fs 1 fd) of
           Inr this_result \<Rightarrow> process_with_progress H q n fs fd = Inr []
         | Inl e \<Rightarrow> process_with_progress H q n fs fd = (if k = 0 then Inr [] else Inl e))) \<and>
   (\<forall>r. process_with_progress H q n fs fd = Inr r \<longrightarrow>
        r = [] \<or> fst (process_file H None n fs 1 fd) = Inr r) \<and>
   process_with_progress H (Some 0) n fs fd = Inr [] \<and>
   merge_results result [process_with_progress H (Some 0) n fs fd] = Inr result"
proof (intro conjI allI impI)
  fix k assume a: "q = Some k \<and> k \<le> snd (process_file H q n fs 1 fd)"
  then have "QUIT q (snd (process_file H q n fs 1 fd))" by (auto simp: QUIT_def)
  with a show "case fst (process_file H q n fs 1 fd) of
           Inr this_result \<Rightarrow> process_with_progress H q n fs fd = Inr []
         | Inl e \<Rightarrow> process_with_progress H q n fs fd = (if k = 0 then Inr [] else Inl e)"
    by (cases "process_file H q n fs 1 fd")
      (auto simp: process_with_progress_def QUIT_def split: sum.splits)
next
  fix r assume w: "process_with_progress H q n fs fd = Inr r"
  obtain x t where p: "process_file H q n fs 1 fd = (x, t)"
    by (cases "process_file H q n fs 1 fd")
  show "r = [] \<or> fst (process_file H None n fs 1 fd) = Inr r"
  proof (cases "QUIT q 0 \<or> QUIT q t")
    case True
    with p w show ?thesis by (auto simp: process_with_progress_def split: sum.splits if_splits)
  next
    case False
    with process_file_complete [OF p] p w show ?thesis
      by (auto simp: process_with_progress_def split: sum.splits if_splits)
  qed
next
  show "process_with_progress H (Some 0) n fs fd = Inr []"
    by (simp add: process_with_progress_def QUIT_def)
next
  show "merge_results result [process_with_progress H (Some 0) n fs fd] = Inr result"
    by (simp add: process_with_progress_def QUIT_def)
qed

lemma is_zip_ex: "is_zip ''roms/pack.zip''" "\<not> is_zip ''roms/game.bin''" "\<not> is_zip []"
  by (simp_all add: is_zip_def ends_with_def lower_def lower_char_def upper_letters_def
      lower_letters_def)

text \<open>
  With chunks of two bytes and the flag set between the first and the second chunk,
  \<open>process_file\<close> returns the digest of the first chunk alone; the worker drops it.
\<close>

theorem worker_cancelled_witness:
  "Some 2 = Some (2::nat) \<and>
   (2::nat) \<le> snd (process_file ex_sha1 (Some 2) 2 ex_fs 1 \<lparr>fd_size = 4, fd_path = ''roms/game.bin''\<rparr>) \<and>
   process_file ex_sha1 (Some 2) 2 ex_fs 1 \<lparr>fd_size = 4, fd_path = ''roms/game.bin''\<rparr> =
     (Inr [(''da'', ''roms/game.bin'')], 3) \<and>
   process_with_progress ex_sha1 (Some 2) 2 ex_fs \<lparr>fd_size = 4, fd_path = ''roms/game.bin''\<rparr> = Inr []"
proof -
  have p: "process_file ex_sha1 (Some 2) 2 ex_fs 1 \<lparr>fd_size = 4, fd_path = ''roms/game.bin''\<rparr> =
     (Inr [(''da'', ''roms/game.bin'')], 3)"
    by (simp add: process_file_def hash_uncompressed_def Let_def is_zip_ex ex_fs_def compute_hash_def
        compute_hash_loop.simps read_chunk_def read_rest_def read_raises_def QUIT_def ex_sha1_def
        lower_def lower_char_def upper_letters_def lower_letters_def)
  then have h: "Some 2 = Some (2::nat) \<and>
     (2::nat) \<le> snd (process_file ex_sha1 (Some 2) 2 ex_fs 1 \<lparr>fd_size = 4, fd_path = ''roms/game.bin''\<rparr>)"
    by simp
  from worker_cancelled [of "Some 2" ex_sha1 2 ex_fs "\<lparr>fd_size = 4, fd_path = ''roms/game.bin''\<rparr>"] h p
  have "process_with_progress ex_sha1 (Some 2) 2 ex_fs \<lparr>fd_size = 4, fd_path = ''roms/game.bin''\<rparr> = Inr []"
    by auto
  with p h show ?thesis by simp
qed

section \<open>The digest index\<close>

lemma merge_items_keys: "map fst (merge_items result kvs) = map fst result"
proof (induction kvs arbitrary: result)
  case Nil
  then show ?case by simp
next
  case (Cons kv kvs)
  obtain key val where kv: "kv = (key, val)" by (cases kv)
  have "map fst (case map_of result key of
          None \<Rightarrow> result
        | Some p \<Rightarrow> if \<not> is_zip p then AList.update key val result else result) = map fst result"
    by (auto simp: update_keys split: option.splits dest: map_of_SomeD intro: rev_image_eqI)
  with Cons.IH kv show ?case by simp
qed

lemma merge_results_keys:
  "merge_results result irs = Inr result' \<Longrightarrow> map fst result' = map fst result"
  by (induction result irs rule: merge_results.induct) (simp_all add: merge_items_keys)

lemma merge_items_absent:
  "map_of kvs d = None \<Longrightarrow> map_of (merge_items result kvs) d = map_of result d"
proof (induction kvs arbitrary: result)
  case Nil
  then show ?case by simp
next
  case (Cons kv kvs)
  obtain key val where kv: "kv = (key, val)" by (cases kv)
  with Cons.prems have ne: "key \<noteq> d" and rest: "map_of kvs d = None"
    by (auto split: if_splits)
  have "map_of (case map_of result key of
          None \<Rightarrow> result
        | Some p \<Rightarrow> if \<not> is_zip p then AList.update key val result else result) d = map_of result d"
    using ne by (auto simp: update_conv' split: option.splits)
  with Cons.IH [OF rest] kv show ?case by simp
qed

lemma merge_results_absent:
  "merge_results result irs = Inr result' \<Longrightarrow> \<forall>ir. Inr ir \<in> set irs \<longrightarrow> map_of ir d = None \<Longrightarrow>
   map_of result' d = map_of result d"
  by (induction result irs rule: merge_results.induct) (simp_all add: merge_items_absent)

lemma merge_results_returns:
  "(\<exists>result'. merge_results result irs = Inr result') = (\<forall>x \<in> set irs. \<exists>ir. x = Inr ir)"
  by (induction result irs rule: merge_results.induct) simp_all

lemma merge_results_raises:
  "merge_results result irs = Inl e \<Longrightarrow> Inl e \<in> set irs"
  by (induction result irs rule: merge_results.induct) simp_all

lemma init_index_keys:
  "init_index result rs = Inr result' \<Longrightarrow>
   fst ` set result \<subseteq> fst ` set result' \<and>
   (\<forall>r \<in> set rs. \<exists>d. lower_opt (rom_sha1 r) = Inr d \<and> d \<in> fst ` set result')"
proof (induction rs arbitrary: result)
  case Nil
  then show ?case by simp
next
  case (Cons r rs)
  from Cons.prems obtain d where d: "lower_opt (rom_sha1 r) = Inr d"
    and rest: "init_index (AList.update d [] result) rs = Inr result'"
    by (auto split: sum.splits)
  have "fst ` set (AList.update d [] result) = {d} \<union> fst ` set result"
    by (rule dom_update)
  with Cons.IH [OF rest] d show ?case
    by auto
qed

lemma init_index_values:
  "init_index result rs = Inr result' \<Longrightarrow> \<forall>kv \<in> set result. snd kv = [] \<Longrightarrow>
   \<forall>kv \<in> set result'. snd kv = []"
proof (induction rs arbitrary: result)
  case Nil
  then show ?case by simp
next
  case (Cons r rs)
  from Cons.prems(1) obtain d where d: "lower_opt (rom_sha1 r) = Inr d"
    and rest: "init_index (AList.update d [] result) rs = Inr result'"
    by (auto split: sum.splits)
  have "\<forall>kv \<in> set (AList.update d [] result). snd kv = []"
    using Cons.prems(2) by (induction result) auto
  from Cons.IH [OF rest this] show ?case .
qed

lemma init_index_total:
  "\<forall>r \<in> set rs. rom_sha1 r \<noteq> None \<Longrightarrow> \<exists>result'. init_index result rs = Inr result'"
  by (induction rs arbitrary: result) (auto simp: lower_opt_def split: option.splits)

text \<open>
  C10. Hash-based resolution runs only after \<open>validate_dat\<close> has let the catalog pass
  with \<open>use_hashes\<close> set. Then every index that \<open>index_files\<close> returns has, for every
  ROM of every game of the catalog, the lowercased SHA1 as a key, so that the lookup of
  the selection loop returns a path and raises nothing; the path is the empty string
  when no scanned file yields that digest. \<open>index_files\<close> returns an index exactly when
  there is no file to hash, or the number of threads is accepted and every worker
  returns; otherwise it raises the \<open>ValueError\<close> of the pool or the exception of a
  worker, never an exception of the catalog, and the selection loop is not reached.
\<close>

theorem index_covers_catalog:
  assumes "validate_dat games True answer = Inr ()"
  shows "(\<forall>hash_index. index_files H views n THREADS fs listing games = Inr hash_index \<longrightarrow>
       (\<forall>g \<in> set games. \<forall>entry_rom \<in> set (game_rom g).
          \<exists>digest p. lower_opt (rom_sha1 entry_rom) = Inr digest \<and>
            map_of hash_index digest = Some p \<and>
            rom_input_path hash_index entry_rom = Inr p \<and>
            ((\<forall>ir. Inr ir \<in> set (intermediate_results H views n fs listing) \<longrightarrow>
                 map_of ir digest = None) \<longrightarrow> p = []))) \<and>
     (\<exists>hash_index. index_files H views n THREADS fs listing games = Inr hash_index) =
       (files_data listing = [] \<or>
        \<not> pool_raises THREADS \<and>
        (\<forall>fd \<in> set (files_data listing).
           \<exists>ir. process_with_progress H (views (fd_path fd)) n fs fd = Inr ir)) \<and>
     (\<forall>e. index_files H views n THREADS fs listing games = Inl e \<longrightarrow>
        files_data listing \<noteq> [] \<and>
        (pool_raises THREADS \<and> e = ValueError \<or>
         Inl e \<in> set (intermediate_results H views n fs listing)))"
proof -
  from assms have "\<not> lacks_sha1 games"
    by (auto simp: validate_dat_def split: if_splits)
  then have "\<forall>r \<in> set (catalog_roms games). rom_sha1 r \<noteq> None"
    by (fastforce simp: lacks_sha1_def catalog_roms_def truthy_def list_ex_iff split: option.splits)
  from init_index_total [OF this] obtain result where
    init: "init_index [] (catalog_roms games) = Inr result" by blast
  define irs where "irs = intermediate_results H views n fs listing"
  have idx: "index_files H views n THREADS fs listing games =
      (if files_data listing \<noteq> [] then
         (if pool_raises THREADS then Inl ValueError else merge_results result irs)
       else Inr result)"
    by (simp add: index_files_def init irs_def)
  have empty: "irs = []" if "files_data listing = []"
    using that by (simp add: irs_def intermediate_results_def)
  have keys: "map fst hash_index = map fst result \<and>
      ((\<forall>ir. Inr ir \<in> set irs \<longrightarrow> map_of ir d = None) \<longrightarrow> map_of hash_index d = map_of result d)"
    if "index_files H views n THREADS fs listing games = Inr hash_index" for hash_index d
  proof (cases "files_data listing = []")
    case True
    with that idx show ?thesis by simp
  next
    case False
    with that idx have "merge_results result irs = Inr hash_index"
      by (simp split: if_splits)
    with merge_results_keys merge_results_absent show ?thesis by blast
  qed
  have cover: "\<exists>digest p. lower_opt (rom_sha1 entry_rom) = Inr digest \<and>
          map_of hash_index digest = Some p \<and>
          rom_input_path hash_index entry_rom = Inr p \<and>
          ((\<forall>ir. Inr ir \<in> set irs \<longrightarrow> map_of ir digest = None) \<longrightarrow> p = [])"
    if i: "index_files H views n THREADS fs listing games = Inr hash_index"
      and g: "g \<in> set games" and r: "entry_rom \<in> set (game_rom g)" for hash_index g entry_rom
  proof -
    from g r have "entry_rom \<in> set (catalog_roms games)" by (auto simp: catalog_roms_def)
    with init_index_keys [OF init] obtain digest where
      d: "lower_opt (rom_sha1 entry_rom) = Inr digest" and k: "digest \<in> fst ` set result"
      by blast
    from k have "digest \<in> fst ` set hash_index"
      using keys [OF i, of digest] by (metis set_map)
    then obtain p where p: "map_of hash_index digest = Some p"
      by (metis domD dom_map_of_conv_image_fst)
    have "p = []" if "\<forall>ir. Inr ir \<in> set irs \<longrightarrow> map_of ir digest = None"
    proof -
      from keys [OF i, of digest] that p have "map_of result digest = Some p"
        by simp
      then have "(digest, p) \<in> set result" by (rule map_of_SomeD)
      with init_index_values [OF init] show ?thesis by fastforce
    qed
    with d p show ?thesis by (auto simp: rom_input_path_def)
  qed
  have returns: "(\<exists>hash_index. index_files H views n THREADS fs listing games = Inr hash_index) =
       (files_data listing = [] \<or>
        \<not> pool_raises THREADS \<and>
        (\<forall>fd \<in> set (files_data listing).
           \<exists>ir. process_with_progress H (views (fd_path fd)) n fs fd = Inr ir))"
  proof (cases "files_data listing = [] \<or> pool_raises THREADS")
    case True
    with idx show ?thesis by auto
  next
    case False
    with idx have "index_files H views n THREADS fs listing games = merge_results result irs"
      by simp
    with merge_results_returns [of result irs] False show ?thesis
      by (simp add: irs_def intermediate_results_def)
  qed
  have raises: "files_data listing \<noteq> [] \<and>
        (pool_raises THREADS \<and> e = ValueError \<or> Inl e \<in> set irs)"
    if "index_files H views n THREADS fs listing games = Inl e" for e
    using that idx merge_results_raises [of result irs e] by (auto split: if_splits)
  from cover returns raises show ?thesis unfolding irs_def by blast
qed

lemma compute_hash_whole:
  "compute_hash H None 33554432 t (''DATA'', None) = (Inr (lower (H ''DATA'')), t + 3)"
  "compute_hash H None 33554432 t (''PK'', None) = (Inr (lower (H ''PK'')), t + 3)"
  by (simp_all add: compute_hash_def compute_hash_loop.simps read_chunk_def read_rest_def
      read_raises_def)

lemma worker_bin:
  "process_with_progress H None 33554432 ex_fs \<lparr>fd_size = s, fd_path = ''roms/game.bin''\<rparr> =
     Inr [(lower (H ''DATA''), ''roms/game.bin'')]"
  by (simp add: process_with_progress_def process_file_def hash_uncompressed_def Let_def
      is_zip_ex ex_fs_def compute_hash_whole)

lemma worker_zip:
  "process_with_progress H None 33554432 ex_fs \<lparr>fd_size = s, fd_path = ''roms/pack.zip''\<rparr> =
     Inr (if lower (H ''PK'') = lower (H ''DATA'') then [(lower (H ''DATA''), ''roms/pack.zip'')]
      else [(lower (H ''DATA''), ''roms/pack.zip''), (lower (H ''PK''), ''roms/pack.zip'')])"
  by (simp add: process_with_progress_def process_file_def hash_compressed_def
      hash_uncompressed_def Let_def is_zip_ex ex_fs_def compute_hash_whole)

lemma ex_validate: "validate_dat (ex_catalog ex_sha1) True ''y'' = Inr ()"
  by (simp add: validate_dat_def lacks_sha1_def has_cloneof_def ex_catalog_def truthy_def
      ex_sha1_def strip_def is_space_def)

text \<open>
  A repository of two files, hashed by four threads: the index has the digest of the
  catalog's ROM and the lookup returns its path.
\<close>

theorem index_covers_catalog_witness:
  "validate_dat (ex_catalog ex_sha1) True ''y'' = Inr () \<and>
   files_data [(''roms/game.bin'', Some 4), (''roms/pack.zip'', Some 120)] =
     [\<lparr>fd_size = 120, fd_path = ''roms/pack.zip''\<rparr>, \<lparr>fd_size = 4, fd_path = ''roms/game.bin''\<rparr>] \<and>
   \<not> pool_raises (Some 4) \<and>
   list_all (\<lambda>fd. \<exists>ir. process_with_progress ex_sha1 None 33554432 ex_fs fd = Inr ir)
     (files_data [(''roms/game.bin'', Some 4), (''roms/pack.zip'', Some 120)]) \<and>
   (\<exists>hash_index p.
      index_files ex_sha1 (\<lambda>p. None) 33554432 (Some 4) ex_fs
        [(''roms/game.bin'', Some 4), (''roms/pack.zip'', Some 120)] (ex_catalog ex_sha1) =
        Inr hash_index \<and>
      map_of hash_index ''data'' = Some p \<and>
      rom_input_path hash_index \<lparr>rom_name = ''game.bin'', rom_sha1 = Some (ex_sha1 ''DATA'')\<rparr> =
        Inr p)"
proof -
  let ?L = "[(''roms/game.bin'', Some 4), (''roms/pack.zip'', Some (120::nat))]"
  have f: "files_data ?L =
     [\<lparr>fd_size = 120, fd_path = ''roms/pack.zip''\<rparr>, \<lparr>fd_size = 4, fd_path = ''roms/game.bin''\<rparr>]"
    by (simp add: files_data_def)
  have t: "\<not> pool_raises (Some 4)" by (simp add: pool_raises_def)
  have w: "\<forall>fd \<in> set (files_data ?L).
     \<exists>ir. process_with_progress ex_sha1 ((\<lambda>p. None) (fd_path fd)) 33554432 ex_fs fd = Inr ir"
    unfolding f by (simp add: worker_bin worker_zip)
  have l: "lower_opt (Some (ex_sha1 ''DATA'')) = Inr ''data''"
    by (simp add: lower_opt_def ex_sha1_def lower_def lower_char_def upper_letters_def
        lower_letters_def)
  note cov = index_covers_catalog [OF ex_validate, of ex_sha1 "\<lambda>p. None" 33554432 "Some 4" ex_fs ?L]
  from cov t w obtain hash_index where
    i: "index_files ex_sha1 (\<lambda>p. None) 33554432 (Some 4) ex_fs ?L (ex_catalog ex_sha1) = Inr hash_index"
    by blast
  with cov have "\<forall>g \<in> set (ex_catalog ex_sha1). \<forall>entry_rom \<in> set (game_rom g).
          \<exists>digest p. lower_opt (rom_sha1 entry_rom) = Inr digest \<and>
            map_of hash_index digest = Some p \<and>
            rom_input_path hash_index entry_rom = Inr p \<and>
            ((\<forall>ir. Inr ir \<in> set (intermediate_results ex_sha1 (\<lambda>p. None) 33554432 ex_fs ?L) \<longrightarrow>
                 map_of ir digest = None) \<longrightarrow> p = [])"
    by blast
  then obtain p where "map_of hash_index ''data'' = Some p"
    "rom_input_path hash_index \<lparr>rom_name = ''game.bin'', rom_sha1 = Some (ex_sha1 ''DATA'')\<rparr> = Inr p"
    using l by (auto simp: ex_catalog_def)
  with i ex_validate f t w show ?thesis
    by (auto simp: list_all_iff)
qed

text \<open>
  An archive that cannot be opened, or a number of threads that is not positive when
  there are files to hash, ends the indexing with the exception.
\<close>

lemma index_files_raises:
  "index_files H (\<lambda>p. None) 33554432 None ex_locked_fs [(''roms/pack.zip'', Some 120)] (ex_catalog H) =
     Inl OSError"
  "index_files H (\<lambda>p. None) 33554432 (Some 0) ex_fs [(''roms/pack.zip'', Some 120)] (ex_catalog H) =
     Inl ValueError"
  "index_files H (\<lambda>p. None) 33554432 (Some 0) ex_fs [] (ex_catalog H) = Inr [(lower (H ''DATA''), [])]"
  by (simp_all add: index_files_def intermediate_results_def files_data_def catalog_roms_def
      ex_catalog_def lower_opt_def pool_raises_def process_with_progress_def process_file_def
      hash_compressed_def ex_locked_fs_def Let_def is_zip_ex)

text \<open>
  C1. The catalog declares one ROM with the digest of the bytes \<open>DATA\<close>. The repository
  holds the loose file \<open>roms/game.bin\<close> with these bytes and the archive \<open>roms/pack.zip\<close>
  with one member of these bytes. Whatever the two sizes, hence whichever of the two
  results is merged first, whatever the digest function and whatever accepted number of
  threads, the index maps the digest to the archive: the merge of \<open>index_files\<close> replaces
  a recorded path exactly when it is not an archive, where \<open>process_file\<close> replaces it
  exactly when it is one.
\<close>

theorem index_files_archive_beats_loose:
  "index_files H (\<lambda>p. None) 33554432 THREADS ex_fs
     [(''roms/game.bin'', Some size_bin), (''roms/pack.zip'', Some size_zip)] (ex_catalog H) =
   (if pool_raises THREADS then Inl ValueError
    else Inr [(lower (H ''DATA''), ''roms/pack.zip'')])"
  by (simp add: index_files_def intermediate_results_def files_data_def catalog_roms_def
      ex_catalog_def lower_opt_def worker_bin worker_zip is_zip_ex)

section \<open>The selection walk\<close>

lemma hash_roms_none_copied:
  "hash_roms cfg env gm entry copied rs = (evs, c, r) \<Longrightarrow> c = [] \<Longrightarrow>
   copied = [] \<and> (\<forall>ev \<in> set evs. is_warning ev)"
proof (induction rs arbitrary: copied evs c r)
  case Nil
  then show ?case by simp
next
  case (Cons entry_rom rs)
  show ?case
  proof (cases "rom_input_path (hash_index cfg) entry_rom")
    case (Inl e)
    with Cons.prems show ?thesis by simp
  next
    case (Inr path)
    show ?thesis
    proof (cases "path = []")
      case True
      with Inr Cons.prems Cons.IH [of copied] show ?thesis
        by (auto split: if_splits prod.splits)
    next
      case False
      show ?thesis
      proof (cases "path \<in> set copied")
        case True
        with False Inr Cons.prems have "hash_roms cfg env gm entry copied rs = (evs, c, r)"
          using True by (simp add: Let_def split: if_splits)
        from Cons.IH [OF this Cons.prems(2)] True show ?thesis by simp
      next
        case nin: False
        obtain evs' c' r' where
          rec: "hash_roms cfg env gm entry (path # copied) rs = (evs', c', r')"
          by (cases "hash_roms cfg env gm entry (path # copied) rs")
        from Cons.IH [OF rec] have "c' \<noteq> []" by auto
        with nin False Inr Cons.prems rec show ?thesis
          by (auto simp: Let_def split: if_splits)
      qed
    qed
  qed
qed

lemma handle_hashes_continue:
  assumes "handle_hashes cfg env gm sz i entry = (evs, Continue)"
  shows "\<forall>ev \<in> set evs. is_warning ev"
proof -
  obtain evs0 c r where h: "hash_roms cfg env gm entry [] (ge_roms entry) = (evs0, c, r)"
    by (cases "hash_roms cfg env gm entry [] (ge_roms entry)")
  with assms have c: "c = []" and e: "evs = evs0 \<or> evs = evs0 @ [Warning (NoEligible gm)]"
    by (auto simp: handle_hashes_def split: option.splits if_splits)
  from hash_roms_none_copied [OF h c] e show ?thesis by auto
qed

lemma handle_input_dir_continue:
  "handle_input_dir cfg env gm sz i entry = (evs, Continue) \<Longrightarrow> \<forall>ev \<in> set evs. is_warning ev"
  by (auto simp: handle_input_dir_def Let_def split: prod.splits option.splits if_splits)

lemma handle_entry_continue:
  "handle_entry cfg env gm sz i entry = (evs, Continue) \<Longrightarrow> \<forall>ev \<in> set evs. is_warning ev"
  by (auto simp: handle_entry_def split: if_splits
      dest: handle_hashes_continue handle_input_dir_continue)

lemma walk_stops_at_excluded:
  "check_in_pattern_list (ge_name e) (exclude_after cfg) \<Longrightarrow>
   walk cfg env gm sz i (pre @ e # post) = walk cfg env gm sz i pre"
  by (induction pre arbitrary: i) (auto split: prod.splits flow.splits)

lemma walk_passes_by:
  "passes_by cfg env gm sz i pre \<Longrightarrow>
   snd (walk cfg env gm sz i pre) = None \<and>
   (\<forall>ev \<in> set (fst (walk cfg env gm sz i pre)). is_warning ev)"
proof (induction pre arbitrary: i)
  case Nil
  then show ?case by simp
next
  case (Cons x pre)
  obtain evs where h: "handle_entry cfg env gm sz i x = (evs, Continue)"
    using Cons.prems by (cases "handle_entry cfg env gm sz i x") auto
  from Cons.prems have "passes_by cfg env gm sz (Suc i) pre" by simp
  from Cons.IH [OF this] handle_entry_continue [OF h] h Cons.prems show ?case
    by (auto split: prod.splits)
qed

text \<open>
  C2, as the code has it. In every resolution mode, a candidate whose name matches an
  exclude-after pattern ends the walk: from it on nothing is examined, so the walk over
  \<open>pre @ e # post\<close> is the walk over \<open>pre\<close>. When the walk reaches \<open>e\<close>, that is, when it
  passes by every candidate of \<open>pre\<close>, it ends without an exception and everything it has
  emitted is a diagnostic: nothing is printed, copied or moved for the family. In
  particular, when the first candidate of the list that is walked matches, which is the
  sorted family after the region filter of \<open>main\<close> or, with all regions, the sorted
  family itself, the family yields nothing at all, whatever the candidates after it.
\<close>

theorem exclude_after_aborts_family:
  assumes "check_in_pattern_list (ge_name e) (exclude_after cfg)"
  shows "walk cfg env gm sz i (e # post) = ([], None) \<and>
     walk cfg env gm sz i (pre @ e # post) = walk cfg env gm sz i pre \<and>
     (passes_by cfg env gm sz i pre \<longrightarrow>
        snd (walk cfg env gm sz i (pre @ e # post)) = None \<and>
        (\<forall>ev \<in> set (fst (walk cfg env gm sz i (pre @ e # post))). is_warning ev)) \<and>
     ((if \<not> all_regions cfg then filter_entries cfg entries else Inr entries) = Inr (e # post) \<longrightarrow>
        select_family cfg env gm entries = ([], None))"
  using assms walk_stops_at_excluded [OF assms] walk_passes_by
  by (simp add: select_family_def)

lemma ex_lookup:
  "rom_input_path (hash_index ex_cfg) ex_rom_a = Inr ''roms/a.bin''"
  "rom_input_path (hash_index ex_cfg) ex_rom_b = Inr []"
  "rom_input_path (hash_index (ex_cfg\<lparr>NO_WARNING := True\<rparr>)) ex_rom_b = Inr []"
  by (simp_all add: rom_input_path_def ex_cfg_def ex_rom_a_def ex_rom_b_def lower_opt_def
      lower_def lower_char_def upper_letters_def lower_letters_def)

lemma ex_excluded:
  "check_in_pattern_list ''Game (USA) (Virtual Console)'' (exclude_after ex_cfg)"
  "\<not> check_in_pattern_list ''Game (USA)'' (exclude_after ex_cfg)"
  "\<not> check_in_pattern_list ''Game (Europe)'' (exclude_after ex_cfg)"
  "\<not> check_in_pattern_list ''Game (USA)'' (exclude_after (ex_cfg\<lparr>NO_WARNING := True\<rparr>))"
  by (simp_all add: check_in_pattern_list_def ex_cfg_def literal_pattern_def)

lemma ex_flags:
  "use_hashes ex_cfg" "\<not> NO_WARNING ex_cfg" "\<forall>p. \<not> makedirs_fails ex_env p" "output_dir ex_cfg = []"
  "\<not> verbose ex_cfg" "input_dir ex_cfg = ''roms''" "\<not> all_regions ex_cfg"
  by (simp_all add: ex_cfg_def ex_env_def)

lemma ex_resolves:
  "resolves ex_cfg ex_rom_a" "\<not> resolves ex_cfg ex_rom_b" "unmapped ex_cfg ex_rom_b"
  "\<not> unmapped ex_cfg ex_rom_a"
  by (simp_all add: resolves_def unmapped_def ex_lookup)

lemma ex_rom_names: "rom_name ex_rom_a = ''a.bin''" "rom_name ex_rom_b = ''b.bin''"
  by (simp_all add: ex_rom_a_def ex_rom_b_def)

lemma ex_entry_sel:
  "ge_name (ex_entry nm rs) = nm" "ge_roms (ex_entry nm rs) = rs"
  "ge_score (ex_entry nm rs) = Some ex_score"
  by (simp_all add: ex_entry_def)

lemma ex_handle:
  "handle_entry ex_cfg ex_env ''Game'' 3 0 (ex_entry ''Game (USA)'' [ex_rom_b]) =
     ([Warning (RomNotFound None ''b.bin'' ''Game (USA)'')], Continue)"
  by (simp add: handle_entry_def handle_hashes_def ex_flags ex_lookup ex_entry_def ex_rom_names)

text \<open>
  A family in which the candidate before the matching one has an unmapped file and the
  candidate after it would resolve: the walk emits the diagnostic of the first and
  stops at the second; and a family whose first walked candidate matches.
\<close>

theorem exclude_after_aborts_family_witness:
  "check_in_pattern_list (ge_name (ex_entry ''Game (USA) (Virtual Console)'' [ex_rom_a]))
     (exclude_after ex_cfg) \<and>
   passes_by ex_cfg ex_env ''Game'' 3 0 [ex_entry ''Game (USA)'' [ex_rom_b]] \<and>
   (if \<not> all_regions ex_cfg
    then filter_entries ex_cfg [ex_entry ''Game (USA) (Virtual Console)'' [ex_rom_a],
                               ex_entry ''Game (Europe)'' [ex_rom_a]]
    else Inr [ex_entry ''Game (USA) (Virtual Console)'' [ex_rom_a],
              ex_entry ''Game (Europe)'' [ex_rom_a]]) =
     Inr [ex_entry ''Game (USA) (Virtual Console)'' [ex_rom_a], ex_entry ''Game (Europe)'' [ex_rom_a]] \<and>
   walk ex_cfg ex_env ''Game'' 3 0
     [ex_entry ''Game (USA)'' [ex_rom_b], ex_entry ''Game (USA) (Virtual Console)'' [ex_rom_a],
      ex_entry ''Game (Europe)'' [ex_rom_a]] =
     ([Warning (RomNotFound None ''b.bin'' ''Game (USA)'')], None) \<and>
   select_family ex_cfg ex_env ''Game''
     [ex_entry ''Game (USA) (Virtual Console)'' [ex_rom_a], ex_entry ''Game (Europe)'' [ex_rom_a]] =
     ([], None)"
proof -
  let ?e = "ex_entry ''Game (USA) (Virtual Console)'' [ex_rom_a]"
  let ?p = "ex_entry ''Game (USA)'' [ex_rom_b]"
  let ?q = "ex_entry ''Game (Europe)'' [ex_rom_a]"
  have x: "check_in_pattern_list (ge_name ?e) (exclude_after ex_cfg)"
    using ex_excluded(1) by (simp add: ex_entry_def)
  have nx: "\<not> check_in_pattern_list (ge_name ?p) (exclude_after ex_cfg)"
    using ex_excluded(2) by (simp add: ex_entry_def)
  have p: "passes_by ex_cfg ex_env ''Game'' 3 0 [?p]"
    using nx by (simp add: ex_handle)
  have f: "(if \<not> all_regions ex_cfg then filter_entries ex_cfg [?e, ?q] else Inr [?e, ?q]) = Inr [?e, ?q]"
    by (simp add: ex_flags ex_entry_def ex_score_def UNSELECTED_def)
  have w: "walk ex_cfg ex_env ''Game'' 3 0 [?p] = ([Warning (RomNotFound None ''b.bin'' ''Game (USA)'')], None)"
    using nx by (simp add: ex_handle)
  from exclude_after_aborts_family [OF x, of ex_env "''Game''" 3 0 "[?q]" "[?p]" "[?e, ?q]"] p f w
  show ?thesis using x by simp
qed

lemma pad_untagged:
  "add_padding [''0'', ''0''] = [''0'', ''0'']"
  "add_padding [''Z'', ''Z''] = [''Z'', ''Z'']"
  by (simp_all add: add_padding_def max_widths_def numeric_fields_def is_digit_def pad_field_def)

lemma ex_ranked:
  "rank_family default_key_cfg [''USA''] [] 3 False False [ex_usa_beta, ex_jpn_vc] =
     Inr [set_score [''USA''] [] 3 False False ex_jpn_vc,
          set_score [''USA''] [] 3 False False ex_usa_beta]"
  by (simp add: rank_family_def pad_and_score_def bind_def pad_values_def ex_jpn_vc_def
      ex_usa_beta_def ex_entry_def
      pad_untagged set_scores_def set_score_def Let_def sort_games_def generate_def
      default_key_cfg_def flag_def get_index_def UNSELECTED_def)

lemma ex_scored:
  "ge_name (set_score regs langs w ra va g) = ge_name g"
  "ge_roms (set_score regs langs w ra va g) = ge_roms g"
  "map_option sc_region (ge_score (set_score regs langs w ra va g)) =
     Some (get_index regs (ge_region g) UNSELECTED)"
  by (simp_all add: set_score_def Let_def)

text \<open>
  The region filter runs before the walk. With the regions \<open>USA\<close>, the release for Japan
  is sorted before the beta for the USA, so it is the top-ranked candidate of the sorted
  family, and its name matches the exclude-after pattern; but its region is not selected,
  the filter drops it, the walk never meets it, and the beta is selected.
\<close>

theorem unselected_region_hides_match:
  "map_sum id (map ge_name)
     (rank_family default_key_cfg [''USA''] [] 3 False False [ex_usa_beta, ex_jpn_vc]) =
     Inr [''Game (Japan) (Virtual Console)'', ''Game (USA) (Beta)''] \<and>
   check_in_pattern_list ''Game (Japan) (Virtual Console)'' (exclude_after ex_cfg) \<and>
   \<not> check_in_pattern_list ''Game (USA) (Beta)'' (exclude_after ex_cfg) \<and>
   map_sum id (select_family ex_cfg ex_env ''Game'')
     (rank_family default_key_cfg [''USA''] [] 3 False False [ex_usa_beta, ex_jpn_vc]) =
     Inr ([Print ''a.bin''], None)"
proof -
  have x: "check_in_pattern_list ''Game (Japan) (Virtual Console)'' (exclude_after ex_cfg)"
    "\<not> check_in_pattern_list ''Game (USA) (Beta)'' (exclude_after ex_cfg)"
    by (simp_all add: check_in_pattern_list_def ex_cfg_def literal_pattern_def)
  have n: "map ge_name [set_score [''USA''] [] 3 False False ex_jpn_vc,
          set_score [''USA''] [] 3 False False ex_usa_beta] =
       [''Game (Japan) (Virtual Console)'', ''Game (USA) (Beta)'']"
    by (simp add: ex_scored ex_jpn_vc_def ex_usa_beta_def ex_entry_def)
  have f: "filter_entries ex_cfg [set_score [''USA''] [] 3 False False ex_jpn_vc,
          set_score [''USA''] [] 3 False False ex_usa_beta] =
       Inr [set_score [''USA''] [] 3 False False ex_usa_beta]"
    by (simp add: set_score_def Let_def get_index_def UNSELECTED_def ex_jpn_vc_def
        ex_usa_beta_def ex_entry_def ex_cfg_def)
  have h: "handle_entry ex_cfg ex_env ''Game'' 1 0 (set_score [''USA''] [] 3 False False ex_usa_beta) =
      ([Print ''a.bin''], Break)"
    using ex_lookup(1)
    by (simp add: handle_entry_def handle_hashes_def ex_scored ex_usa_beta_def ex_entry_def
        Let_def file_relative_to_input_def ex_cfg_def)
  have s: "select_family ex_cfg ex_env ''Game''
       [set_score [''USA''] [] 3 False False ex_jpn_vc,
        set_score [''USA''] [] 3 False False ex_usa_beta] = ([Print ''a.bin''], None)"
    using x(2) h unfolding select_family_def f
    by (simp add: ex_cfg_def ex_scored ex_usa_beta_def ex_entry_def)
  show ?thesis
    unfolding ex_ranked using x n s by simp
qed

lemma hash_roms_returns:
  "hash_roms cfg env gm entry copied rs = (evs, c, None) \<Longrightarrow>
     (\<forall>r \<in> set rs. resolves cfg r \<or> unmapped cfg r) \<and>
     (c \<noteq> [] \<longleftrightarrow> copied \<noteq> [] \<or> list_ex (resolves cfg) rs) \<and>
     filter is_rom_not_found evs =
       (if NO_WARNING cfg then [] else map (rom_not_found cfg gm entry) (filter (unmapped cfg) rs)) \<and>
     count_list evs (Warning (NoEligible gm)) = 0"
proof (induction rs arbitrary: copied evs c)
  case Nil
  then show ?case by simp
next
  case (Cons entry_rom rs)
  show ?case
  proof (cases "rom_input_path (hash_index cfg) entry_rom")
    case (Inl e)
    with Cons.prems show ?thesis by simp
  next
    case (Inr path)
    show ?thesis
    proof (cases "path = []")
      case True
      from True Inr have u: "unmapped cfg entry_rom" "\<not> resolves cfg entry_rom"
        by (simp_all add: unmapped_def resolves_def)
      obtain evs' c' r' where
        rec: "hash_roms cfg env gm entry copied rs = (evs', c', r')"
        by (cases "hash_roms cfg env gm entry copied rs")
      with True Inr Cons.prems have r': "r' = None" and c': "c' = c"
        and e: "evs = (if NO_WARNING cfg then evs' else rom_not_found cfg gm entry entry_rom # evs')"
        by (auto simp: rom_not_found_def split: if_splits)
      from Cons.IH [OF rec [unfolded r']] u e c' show ?thesis
        by (simp add: rom_not_found_def)
    next
      case False
      from False Inr have u: "\<not> unmapped cfg entry_rom" "resolves cfg entry_rom"
        by (simp_all add: unmapped_def resolves_def)
      show ?thesis
      proof (cases "path \<in> set copied")
        case True
        with False Inr Cons.prems have rec: "hash_roms cfg env gm entry copied rs = (evs, c, None)"
          by (simp add: Let_def split: if_splits)
        from True have "copied \<noteq> []" by auto
        with Cons.IH [OF rec] u show ?thesis by simp
      next
        case nin: False
        obtain evs' c' r' where
          rec: "hash_roms cfg env gm entry (path # copied) rs = (evs', c', r')"
          by (cases "hash_roms cfg env gm entry (path # copied) rs")
        with nin False Inr Cons.prems have r': "r' = None" and c': "c' = c"
          and e: "filter is_rom_not_found evs = filter is_rom_not_found evs'"
             "count_list evs (Warning (NoEligible gm)) = count_list evs' (Warning (NoEligible gm))"
          by (auto simp: Let_def split: if_splits)
        from Cons.IH [OF rec [unfolded r']] u e c' show ?thesis by simp
      qed
    qed
  qed
qed

lemma hash_roms_unmapped:
  "\<forall>r \<in> set rs. unmapped cfg r \<Longrightarrow> \<exists>evs. hash_roms cfg env gm entry copied rs = (evs, copied, None)"
proof (induction rs)
  case Nil
  then show ?case by simp
next
  case (Cons entry_rom rs)
  then obtain evs where "hash_roms cfg env gm entry copied rs = (evs, copied, None)" by auto
  moreover from Cons.prems have "rom_input_path (hash_index cfg) entry_rom = Inr []"
    by (simp add: unmapped_def)
  ultimately show ?case by simp
qed

lemma handle_hashes_returns:
  assumes "\<forall>e. snd (handle_hashes cfg env gm sz i entry) \<noteq> Raise e"
  shows "(\<forall>r \<in> set (ge_roms entry). resolves cfg r \<or> unmapped cfg r) \<and>
         snd (handle_hashes cfg env gm sz i entry) =
           (if list_ex (resolves cfg) (ge_roms entry) then Break else Continue) \<and>
         filter is_rom_not_found (fst (handle_hashes cfg env gm sz i entry)) =
           (if NO_WARNING cfg then []
            else map (rom_not_found cfg gm entry) (filter (unmapped cfg) (ge_roms entry))) \<and>
         count_list (fst (handle_hashes cfg env gm sz i entry)) (Warning (NoEligible gm)) =
           (if \<not> list_ex (resolves cfg) (ge_roms entry) \<and> \<not> NO_WARNING cfg \<and> Suc i = sz then 1 else 0)"
proof -
  obtain evs c r where h0: "hash_roms cfg env gm entry [] (ge_roms entry) = (evs, c, r)"
    by (cases "hash_roms cfg env gm entry [] (ge_roms entry)")
  with assms have "r = None" by (cases r) (auto simp: handle_hashes_def)
  with h0 have h: "hash_roms cfg env gm entry [] (ge_roms entry) = (evs, c, None)" by simp
  from hash_roms_returns [OF h] h show ?thesis
    by (simp add: handle_hashes_def)
qed

lemma handle_hashes_unmapped:
  assumes "\<forall>r \<in> set (ge_roms entry). unmapped cfg r"
  shows "snd (handle_hashes cfg env gm sz i entry) \<noteq> Raise e"
proof -
  from hash_roms_unmapped [OF assms, of env gm entry "[]"] show ?thesis
    by (auto simp: handle_hashes_def split: if_splits)
qed

lemma walk_exhausted:
  assumes "use_hashes cfg"
  shows "\<forall>entry \<in> set es. (\<forall>r \<in> set (ge_roms entry). unmapped cfg r) \<and>
            \<not> check_in_pattern_list (ge_name entry) (exclude_after cfg) \<Longrightarrow>
         i + length es = sz \<Longrightarrow>
         snd (walk cfg env gm sz i es) = None \<and>
         count_list (fst (walk cfg env gm sz i es)) (Warning (NoEligible gm)) =
           (if es = [] \<or> NO_WARNING cfg then 0 else 1)"
proof (induction es arbitrary: i)
  case Nil
  then show ?case by simp
next
  case (Cons entry es)
  from Cons.prems(1) have u: "\<forall>r \<in> set (ge_roms entry). unmapped cfg r"
    and x: "\<not> check_in_pattern_list (ge_name entry) (exclude_after cfg)" by simp_all
  from u have nr: "\<not> list_ex (resolves cfg) (ge_roms entry)"
    by (auto simp: list_ex_iff unmapped_def resolves_def)
  obtain evs fl where he: "handle_entry cfg env gm sz i entry = (evs, fl)"
    by (cases "handle_entry cfg env gm sz i entry")
  with assms(1) have hh: "handle_hashes cfg env gm sz i entry = (evs, fl)"
    by (simp add: handle_entry_def)
  from handle_hashes_unmapped [OF u, of env gm sz i]
  have "\<forall>e. snd (handle_hashes cfg env gm sz i entry) \<noteq> Raise e" by simp
  from handle_hashes_returns [OF this] hh nr
  have fl: "fl = Continue"
    and n: "count_list evs (Warning (NoEligible gm)) = (if \<not> NO_WARNING cfg \<and> Suc i = sz then 1 else 0)"
    by simp_all
  from Cons.prems have "snd (walk cfg env gm sz (Suc i) es) = None \<and>
         count_list (fst (walk cfg env gm sz (Suc i) es)) (Warning (NoEligible gm)) =
           (if es = [] \<or> NO_WARNING cfg then 0 else 1)"
    by (intro Cons.IH) simp_all
  moreover have "es = [] \<longleftrightarrow> Suc i = sz" using Cons.prems(2) by auto
  ultimately show ?case
    using he fl n x by (auto split: prod.splits)
qed

text \<open>
  C5, as the code has it. In hash-based resolution, for a candidate whose turn raises no
  exception, neither in a lookup nor in \<open>os.makedirs\<close>: every lookup has returned a path
  or the empty string; the candidate ends the walk exactly when at least one of its
  files resolves to a path, and the walk goes on to the next candidate when none does;
  unless warnings are suppressed, each file whose digest is mapped to no path yields one
  diagnostic, in the order of the files, and the file is skipped. When the walked list
  is not empty, warnings are not suppressed, no candidate is excluded and no file of any
  candidate resolves, the walk ends without an exception and emits the final diagnostic
  of the family exactly once.
\<close>

theorem hash_resolution:
  assumes "use_hashes cfg" and "\<forall>e. snd (handle_entry cfg env gm sz i entry) \<noteq> Raise e"
  shows "(\<forall>r \<in> set (ge_roms entry). resolves cfg r \<or> unmapped cfg r) \<and>
         snd (handle_entry cfg env gm sz i entry) =
           (if list_ex (resolves cfg) (ge_roms entry) then Break else Continue) \<and>
         filter is_rom_not_found (fst (handle_entry cfg env gm sz i entry)) =
           (if NO_WARNING cfg then []
            else map (rom_not_found cfg gm entry) (filter (unmapped cfg) (ge_roms entry))) \<and>
         (\<not> check_in_pattern_list (ge_name entry) (exclude_after cfg) \<longrightarrow>
            walk cfg env gm sz i (entry # rest) =
              (if list_ex (resolves cfg) (ge_roms entry)
               then (fst (handle_entry cfg env gm sz i entry), None)
               else (fst (handle_entry cfg env gm sz i entry) @ fst (walk cfg env gm sz (Suc i) rest),
                     snd (walk cfg env gm sz (Suc i) rest)))) \<and>
         (entries \<noteq> [] \<and> \<not> NO_WARNING cfg \<and>
          (\<forall>e \<in> set entries. (\<forall>r \<in> set (ge_roms e). unmapped cfg r) \<and>
             \<not> check_in_pattern_list (ge_name e) (exclude_after cfg)) \<longrightarrow>
            snd (walk cfg env gm (length entries) 0 entries) = None \<and>
            count_list (fst (walk cfg env gm (length entries) 0 entries)) (Warning (NoEligible gm)) = 1)"
proof (intro conjI impI)
  from assms have "\<forall>e. snd (handle_hashes cfg env gm sz i entry) \<noteq> Raise e"
    by (simp add: handle_entry_def)
  from handle_hashes_returns [OF this] assms(1)
  show "\<forall>r \<in> set (ge_roms entry). resolves cfg r \<or> unmapped cfg r"
    and s: "snd (handle_entry cfg env gm sz i entry) =
              (if list_ex (resolves cfg) (ge_roms entry) then Break else Continue)"
    and "filter is_rom_not_found (fst (handle_entry cfg env gm sz i entry)) =
              (if NO_WARNING cfg then []
               else map (rom_not_found cfg gm entry) (filter (unmapped cfg) (ge_roms entry)))"
    by (simp_all add: handle_entry_def)
  assume "\<not> check_in_pattern_list (ge_name entry) (exclude_after cfg)"
  with s show "walk cfg env gm sz i (entry # rest) =
              (if list_ex (resolves cfg) (ge_roms entry)
               then (fst (handle_entry cfg env gm sz i entry), None)
               else (fst (handle_entry cfg env gm sz i entry) @ fst (walk cfg env gm sz (Suc i) rest),
                     snd (walk cfg env gm sz (Suc i) rest)))"
    by (cases "handle_entry cfg env gm sz i entry") (simp split: prod.splits)
next
  assume h: "entries \<noteq> [] \<and> \<not> NO_WARNING cfg \<and>
          (\<forall>e \<in> set entries. (\<forall>r \<in> set (ge_roms e). unmapped cfg r) \<and>
             \<not> check_in_pattern_list (ge_name e) (exclude_after cfg))"
  then have "\<forall>entry \<in> set entries. (\<forall>r \<in> set (ge_roms entry). unmapped cfg r) \<and>
            \<not> check_in_pattern_list (ge_name entry) (exclude_after cfg)"
    by simp
  from walk_exhausted [OF assms(1) this, of 0 "length entries" env gm] h
  show "snd (walk cfg env gm (length entries) 0 entries) = None"
    and "count_list (fst (walk cfg env gm (length entries) 0 entries)) (Warning (NoEligible gm)) = 1"
    by simp_all
qed

text \<open>
  With warnings suppressed, a family whose only candidate has an unmapped file is
  walked to its end in silence: no diagnostic for the file, none for the family.
\<close>

theorem silent_unresolved_family:
  "unmapped (ex_cfg\<lparr>NO_WARNING := True\<rparr>) ex_rom_b \<and>
   select_family (ex_cfg\<lparr>NO_WARNING := True\<rparr>) ex_env ''Game''
     [ex_entry ''Game (USA)'' [ex_rom_b]] = ([], None)"
  using ex_lookup(3) ex_excluded(4)
  by (simp add: unmapped_def select_family_def ex_entry_def ex_score_def UNSELECTED_def
      handle_entry_def handle_hashes_def ex_cfg_def)

lemma is_zip_a: "\<not> is_zip ''roms/a.bin''"
  by (simp add: is_zip_def ends_with_def lower_def lower_char_def upper_letters_def
      lower_letters_def)

lemma ex_handle_two:
  "handle_entry ex_cfg ex_env ''Game'' 2 0 (ex_entry ''Game (Europe)'' [ex_rom_b, ex_rom_a]) =
     ([Warning (RomNotFound None ''b.bin'' ''Game (Europe)''), Print ''a.bin''], Break)"
  by (simp add: handle_entry_def handle_hashes_def ex_flags ex_lookup ex_entry_def ex_rom_names
      Let_def file_relative_to_input_def)

text \<open>
  With an output directory, a candidate of two loose files gets a directory of its own;
  when \<open>os.makedirs\<close> raises, the turn of the candidate ends with the exception.
\<close>

lemma makedirs_raises:
  "handle_entry (ex_cfg\<lparr>output_dir := ''out''\<rparr>) (ex_env\<lparr>makedirs_fails := (\<lambda>p. True)\<rparr>) ''Game'' 2 0
     (ex_entry ''Game (Europe)'' [ex_rom_b, ex_rom_a]) =
     ([Warning (RomNotFound None ''b.bin'' ''Game (Europe)'')], Raise OSError)"
  using ex_lookup
  by (simp add: handle_entry_def handle_hashes_def ex_cfg_def ex_entry_def ex_rom_names
      Let_def is_zip_a)

text \<open>
  A candidate of two files, the first unmapped and the second resolved: one diagnostic,
  and the walk stops; and a family of two candidates without any resolved file.
\<close>

theorem hash_resolution_witness:
  "use_hashes ex_cfg \<and>
   (\<forall>e. snd (handle_entry ex_cfg ex_env ''Game'' 2 0 (ex_entry ''Game (Europe)'' [ex_rom_b, ex_rom_a]))
        \<noteq> Raise e) \<and>
   \<not> check_in_pattern_list (ge_name (ex_entry ''Game (Europe)'' [ex_rom_b, ex_rom_a])) (exclude_after ex_cfg) \<and>
   [ex_entry ''Game (USA)'' [ex_rom_b], ex_entry ''Game (Europe)'' [ex_rom_b]] \<noteq> [] \<and>
   \<not> NO_WARNING ex_cfg \<and>
   list_all (\<lambda>e. list_all (unmapped ex_cfg) (ge_roms e) \<and>
               \<not> check_in_pattern_list (ge_name e) (exclude_after ex_cfg))
     [ex_entry ''Game (USA)'' [ex_rom_b], ex_entry ''Game (Europe)'' [ex_rom_b]] \<and>
   list_all (\<lambda>r. resolves ex_cfg r \<or> unmapped ex_cfg r)
     (ge_roms (ex_entry ''Game (Europe)'' [ex_rom_b, ex_rom_a])) \<and>
   snd (handle_entry ex_cfg ex_env ''Game'' 2 0 (ex_entry ''Game (Europe)'' [ex_rom_b, ex_rom_a])) = Break \<and>
   filter is_rom_not_found
     (fst (handle_entry ex_cfg ex_env ''Game'' 2 0 (ex_entry ''Game (Europe)'' [ex_rom_b, ex_rom_a]))) =
     [Warning (RomNotFound None ''b.bin'' ''Game (Europe)'')] \<and>
   count_list (fst (walk ex_cfg ex_env ''Game'' 2 0
       [ex_entry ''Game (USA)'' [ex_rom_b], ex_entry ''Game (Europe)'' [ex_rom_b]]))
     (Warning (NoEligible ''Game'')) = 1"
proof -
  let ?e = "ex_entry ''Game (Europe)'' [ex_rom_b, ex_rom_a]"
  let ?es = "[ex_entry ''Game (USA)'' [ex_rom_b], ex_entry ''Game (Europe)'' [ex_rom_b]]"
  have a: "\<forall>e. snd (handle_entry ex_cfg ex_env ''Game'' 2 0 ?e) \<noteq> Raise e"
    by (simp add: ex_handle_two)
  have nx: "\<not> check_in_pattern_list (ge_name ?e) (exclude_after ex_cfg)"
    using ex_excluded(3) by (simp add: ex_entry_sel)
  have b: "?es \<noteq> [] \<and> \<not> NO_WARNING ex_cfg \<and>
     (\<forall>e \<in> set ?es. (\<forall>r \<in> set (ge_roms e). unmapped ex_cfg r) \<and>
      \<not> check_in_pattern_list (ge_name e) (exclude_after ex_cfg))"
    using ex_excluded(2,3) ex_flags(2) by (simp add: ex_entry_sel ex_resolves)
  have r: "list_ex (resolves ex_cfg) (ge_roms ?e)"
    by (simp add: ex_entry_sel ex_resolves)
  have u: "map (rom_not_found ex_cfg ''Game'' ?e) (filter (unmapped ex_cfg) (ge_roms ?e)) =
      [Warning (RomNotFound None ''b.bin'' ''Game (Europe)'')]"
    by (simp add: ex_entry_sel ex_resolves rom_not_found_def ex_flags ex_rom_names)
  have l: "length ?es = 2" by simp
  note T = hash_resolution [OF ex_flags(1) a, of "[]" ?es]
  from T have "\<forall>r \<in> set (ge_roms ?e). resolves ex_cfg r \<or> unmapped ex_cfg r"
    by blast
  moreover from T r have "snd (handle_entry ex_cfg ex_env ''Game'' 2 0 ?e) = Break"
    by presburger
  moreover from T u ex_flags(2)
  have "filter is_rom_not_found (fst (handle_entry ex_cfg ex_env ''Game'' 2 0 ?e)) =
       [Warning (RomNotFound None ''b.bin'' ''Game (Europe)'')]"
    by presburger
  moreover from T b
  have "count_list (fst (walk ex_cfg ex_env ''Game'' (length ?es) 0 ?es)) (Warning (NoEligible ''Game'')) = 1"
    by blast
  then have "count_list (fst (walk ex_cfg ex_env ''Game'' 2 0 ?es)) (Warning (NoEligible ''Game'')) = 1"
    by (simp only: l)
  ultimately show ?thesis
    using ex_flags(1,2) a nx b unfolding list_all_iff by blast
qed

section \<open>Scores\<close>

lemma first_index_less: "x \<in> set ls \<Longrightarrow> first_index ls x < length ls"
  by (induction ls) auto

lemma first_index_replicate: "y \<noteq> x \<Longrightarrow> first_index (replicate n y @ [x]) x = n"
  by (induction n) auto

lemma first_index_nth: "distinct ls \<Longrightarrow> k < length ls \<Longrightarrow> first_index ls (ls ! k) = k"
proof (induction ls arbitrary: k)
  case Nil
  then show ?case by simp
next
  case (Cons a ls)
  show ?case
  proof (cases k)
    case 0
    then show ?thesis by simp
  next
    case (Suc m)
    with Cons.prems have "ls ! m \<noteq> a" by auto
    with Suc Cons show ?thesis by auto
  qed
qed

lemma set_score_region:
  "map_option sc_region (ge_score (set_score regs langs w ra va g)) =
     Some (get_index regs (ge_region g) UNSELECTED)"
  by (simp add: set_score_def Let_def)

text \<open>
  C4, as the code has it. After \<open>set_scores\<close>, a candidate whose region is absent from the
  preference list has region rank 10000, and when the list has at most 10000 entries a
  candidate whose region is present in it has a rank from 0 up to, and not including,
  10000: strictly better than the rank of the absent one.
\<close>

theorem unselected_rank_is_worst:
  assumes "length selected_regions \<le> 10000"
    and "k < length games" and "k' < length games"
    and "ge_region (games ! k) \<notin> set selected_regions"
    and "ge_region (games ! k') \<in> set selected_regions"
  shows "map_option sc_region
           (ge_score (set_scores games selected_regions selected_languages w ra va ! k)) = Some 10000 \<and>
         (\<exists>r. map_option sc_region
                 (ge_score (set_scores games selected_regions selected_languages w ra va ! k')) = Some r \<and>
              0 \<le> r \<and> r < 10000)"
  using assms first_index_less [of "ge_region (games ! k')" selected_regions]
  by (simp add: set_scores_def set_score_region get_index_def UNSELECTED_def)

text \<open>
  With 10001 entries in the preference list, the region in the last place is present
  in the list and has the rank \<open>UNSELECTED\<close>.
\<close>

theorem long_region_list:
  "''USA'' \<in> set (replicate 10000 ''XXX'' @ [''USA'']) \<and>
   map_option sc_region
     (ge_score (set_scores [ex_entry ''Game (USA)'' []] (replicate 10000 ''XXX'' @ [''USA'']) [] 3 False False ! 0))
   = Some UNSELECTED"
  using first_index_replicate [of "''XXX''" "''USA''" 10000]
  by (simp add: set_scores_def set_score_region get_index_def UNSELECTED_def ex_entry_def)

lemma set_score_languages:
  "map_option sc_languages (ge_score (set_score regs langs w ra va g)) =
     Some (sum_list (map (language_term langs w) (ge_languages g)))"
  by (simp add: set_score_def Let_def language_term_def [abs_def])

lemma get_index_rev:
  assumes "distinct user" "i < length user"
  shows "get_index (rev user) (user ! i) (- 1) + 1 = int (length user) - int i"
proof -
  have "user ! i = rev user ! (length user - 1 - i)"
    using assms(2) by (simp add: rev_nth)
  moreover have "first_index (rev user) (rev user ! (length user - 1 - i)) = length user - 1 - i"
    using assms by (intro first_index_nth) auto
  ultimately have "first_index (rev user) (user ! i) = length user - 1 - i" by simp
  moreover have "user ! i \<in> set (rev user)" using assms(2) by simp
  ultimately show ?thesis
    using assms(2) by (simp add: get_index_def of_nat_diff)
qed

lemma languages_option_rev: "languages_option is_valid arg = rev (languages_listed is_valid arg)"
  by (simp add: languages_option_def languages_listed_def rev_map rev_filter)

text \<open>
  C9, as the code has it. For a positive weight \<open>w\<close>, the language score that \<open>set_scores\<close>
  gives a candidate is the sum, over the languages of the candidate, of
  \<open>(index + 1) * w * -1\<close>, with the index in the list built from the option, or \<open>-1\<close>; a
  language absent from the list adds zero; and when the user repeats no language, a
  language listed earlier adds a strictly smaller (more negative) value than one listed
  later.
\<close>

theorem language_score:
  assumes "0 < w" and "k < length games"
  shows "map_option sc_languages
           (ge_score (set_scores games regs (languages_option is_valid arg) w ra va ! k)) =
           Some (sum_list (map (\<lambda>lang. (get_index (languages_option is_valid arg) lang (- 1) + 1) * w * - 1)
                  (ge_languages (games ! k)))) \<and>
        (lang \<notin> set (languages_option is_valid arg) \<longrightarrow>
           (get_index (languages_option is_valid arg) lang (- 1) + 1) * w * - 1 = 0) \<and>
        (distinct (languages_listed is_valid arg) \<and> i < j \<and> j < length (languages_listed is_valid arg) \<longrightarrow>
           (get_index (languages_option is_valid arg) (languages_listed is_valid arg ! i) (- 1) + 1) * w * - 1 <
           (get_index (languages_option is_valid arg) (languages_listed is_valid arg ! j) (- 1) + 1) * w * - 1)"
proof (intro conjI impI)
  show "map_option sc_languages
           (ge_score (set_scores games regs (languages_option is_valid arg) w ra va ! k)) =
           Some (sum_list (map (\<lambda>lang. (get_index (languages_option is_valid arg) lang (- 1) + 1) * w * - 1)
                  (ge_languages (games ! k))))"
    using assms(2) by (simp add: set_scores_def set_score_languages language_term_def [abs_def])
next
  assume "lang \<notin> set (languages_option is_valid arg)"
  then show "(get_index (languages_option is_valid arg) lang (- 1) + 1) * w * - 1 = 0"
    by (simp add: get_index_def)
next
  let ?user = "languages_listed is_valid arg"
  assume a: "distinct ?user \<and> i < j \<and> j < length ?user"
  then have i: "get_index (rev ?user) (?user ! i) (- 1) + 1 = int (length ?user) - int i"
    and j: "get_index (rev ?user) (?user ! j) (- 1) + 1 = int (length ?user) - int j"
    by (simp_all add: get_index_rev)
  from a assms(1) show "(get_index (languages_option is_valid arg) (?user ! i) (- 1) + 1) * w * - 1 <
           (get_index (languages_option is_valid arg) (?user ! j) (- 1) + 1) * w * - 1"
    unfolding languages_option_rev i j by simp
qed

lemma lower_strip_ex:
  "lower (strip ''en'') = ''en''" "lower (strip ''es'') = ''es''"
  "strip ''en'' \<noteq> []" "strip ''es'' \<noteq> []"
  by (simp_all add: strip_def is_space_def lower_def lower_char_def upper_letters_def lower_letters_def)

lemma ex_languages:
  "languages_listed (\<lambda>x. strip x \<noteq> []) ''en,es,en'' = [''en'', ''es'', ''en'']"
  "languages_option (\<lambda>x. strip x \<noteq> []) ''en,es,en'' = [''en'', ''es'', ''en'']"
  "languages_listed (\<lambda>x. strip x \<noteq> []) ''en,es'' = [''en'', ''es'']"
  "languages_option (\<lambda>x. strip x \<noteq> []) ''en,es'' = [''es'', ''en'']"
  by (simp_all add: languages_listed_def languages_option_def lower_strip_ex)

text \<open>
  With the option \<open>en,es,en\<close> and weight 3, \<open>en\<close> is listed before \<open>es\<close> and adds
  \<open>-3\<close>, while \<open>es\<close> adds \<open>-6\<close>.
\<close>

theorem repeated_language:
  "languages_listed (\<lambda>x. strip x \<noteq> []) ''en,es,en'' ! 0 = ''en'' \<and>
   languages_listed (\<lambda>x. strip x \<noteq> []) ''en,es,en'' ! 1 = ''es'' \<and>
   (get_index (languages_option (\<lambda>x. strip x \<noteq> []) ''en,es,en'') ''en'' (- 1) + 1) * 3 * - 1 = - 3 \<and>
   (get_index (languages_option (\<lambda>x. strip x \<noteq> []) ''en,es,en'') ''es'' (- 1) + 1) * 3 * - 1 = - 6 \<and>
   \<not> (get_index (languages_option (\<lambda>x. strip x \<noteq> []) ''en,es,en'') ''en'' (- 1) + 1) * 3 * - 1 <
     (get_index (languages_option (\<lambda>x. strip x \<noteq> []) ''en,es,en'') ''es'' (- 1) + 1) * 3 * - 1"
  by (simp add: ex_languages get_index_def)

theorem language_score_witness:
  "(0::int) < 3 \<and> (0::nat) < length [ex_entry ''Game (USA)'' []] \<and>
   ''fr'' \<notin> set (languages_option (\<lambda>x. strip x \<noteq> []) ''en,es'') \<and>
   distinct (languages_listed (\<lambda>x. strip x \<noteq> []) ''en,es'') \<and> (0::nat) < 1 \<and>
   1 < length (languages_listed (\<lambda>x. strip x \<noteq> []) ''en,es'') \<and>
   map_option sc_languages
     (ge_score (set_scores [ex_entry ''Game (USA)'' []] [''USA'']
        (languages_option (\<lambda>x. strip x \<noteq> []) ''en,es'') 3 False False ! 0)) = Some (- 6) \<and>
   (get_index (languages_option (\<lambda>x. strip x \<noteq> []) ''en,es'') ''fr'' (- 1) + 1) * 3 * - 1 = 0 \<and>
   (get_index (languages_option (\<lambda>x. strip x \<noteq> []) ''en,es'')
      (languages_listed (\<lambda>x. strip x \<noteq> []) ''en,es'' ! 0) (- 1) + 1) * 3 * - 1 <
   (get_index (languages_option (\<lambda>x. strip x \<noteq> []) ''en,es'')
      (languages_listed (\<lambda>x. strip x \<noteq> []) ''en,es'' ! 1) (- 1) + 1) * 3 * - 1"
proof -
  have w: "(0::int) < 3" by simp
  have k: "(0::nat) < length [ex_entry ''Game (USA)'' []]" by simp
  have a: "''fr'' \<notin> set (languages_option (\<lambda>x. strip x \<noteq> []) ''en,es'')"
    by (simp add: ex_languages)
  have d: "distinct (languages_listed (\<lambda>x. strip x \<noteq> []) ''en,es'') \<and> (0::nat) < 1 \<and>
     1 < length (languages_listed (\<lambda>x. strip x \<noteq> []) ''en,es'')"
    by (simp add: ex_languages)
  have s: "sum_list (map (\<lambda>lang. (get_index (languages_option (\<lambda>x. strip x \<noteq> []) ''en,es'') lang (- 1) + 1) * 3 * - 1)
                  (ge_languages ([ex_entry ''Game (USA)'' []] ! 0))) = - 6"
    by (simp add: ex_languages ex_entry_def get_index_def)
  note T = language_score [OF w k, of "[''USA'']" "\<lambda>x. strip x \<noteq> []" "''en,es''" False False "''fr''" 0 1]
  from T s a d w k show ?thesis by presburger
qed

theorem unselected_rank_is_worst_witness:
  "length [''USA'', ''EUR''] \<le> 10000 \<and>
   (0::nat) < length [(ex_entry ''Game (Japan)'' [])\<lparr>ge_region := ''JPN''\<rparr>, ex_entry ''Game (USA)'' []] \<and>
   (1::nat) < length [(ex_entry ''Game (Japan)'' [])\<lparr>ge_region := ''JPN''\<rparr>, ex_entry ''Game (USA)'' []] \<and>
   ge_region ([(ex_entry ''Game (Japan)'' [])\<lparr>ge_region := ''JPN''\<rparr>, ex_entry ''Game (USA)'' []] ! 0)
     \<notin> set [''USA'', ''EUR''] \<and>
   ge_region ([(ex_entry ''Game (Japan)'' [])\<lparr>ge_region := ''JPN''\<rparr>, ex_entry ''Game (USA)'' []] ! 1)
     \<in> set [''USA'', ''EUR''] \<and>
   map_option sc_region
     (ge_score (set_scores [(ex_entry ''Game (Japan)'' [])\<lparr>ge_region := ''JPN''\<rparr>, ex_entry ''Game (USA)'' []]
        [''USA'', ''EUR''] [] 3 False False ! 0)) = Some 10000 \<and>
   (\<exists>r. map_option sc_region
     (ge_score (set_scores [(ex_entry ''Game (Japan)'' [])\<lparr>ge_region := ''JPN''\<rparr>, ex_entry ''Game (USA)'' []]
        [''USA'', ''EUR''] [] 3 False False ! 1)) = Some r \<and> 0 \<le> r \<and> r < 10000)"
proof -
  let ?gs = "[(ex_entry ''Game (Japan)'' [])\<lparr>ge_region := ''JPN''\<rparr>, ex_entry ''Game (USA)'' []]"
  have l: "length [''USA'', ''EUR''] \<le> 10000" by simp
  have k: "(0::nat) < length ?gs" and k': "(1::nat) < length ?gs" by simp_all
  have a: "ge_region (?gs ! 0) \<notin> set [''USA'', ''EUR'']" by (simp add: ex_entry_def)
  have p: "ge_region (?gs ! 1) \<in> set [''USA'', ''EUR'']" by (simp add: ex_entry_def)
  note T = unselected_rank_is_worst [OF l k k' a p, of "[]" 3 False False]
  from T l k k' a p show ?thesis by blast
qed

section \<open>Options\<close>

lemma check_options_exit_1:
  "o_dat_file o1 = [] \<or> o_selected_regions o1 = [] \<or>
   ((o_revision_asc o1 \<or> o_version_asc o1) \<and> o_input_order o1) \<or>
   ((o_revision_asc o1 \<or> o_version_asc o1) \<and> o_prefer_parents o1) \<or>
   (o_prefer_parents o1 \<and> o_input_order o1) \<Longrightarrow>
   check_options o1 = Inl (Exit 1)"
  by (auto simp: check_options_def)

lemma check_options_exit_0:
  "check_options o1 = Inl (Exit 0) \<longleftrightarrow>
   o_all_regions o1 \<and> o_all_regions_with_lang o1 \<and>
   \<not> (o_file_extension o1 \<noteq> [] \<and> o_use_hashes o1) \<and> \<not> (o_input_dir o1 = [] \<and> o_use_hashes o1) \<and>
   o_dat_file o1 \<noteq> [] \<and> o_selected_regions o1 \<noteq> [] \<and>
   \<not> ((o_revision_asc o1 \<or> o_version_asc o1) \<and> o_input_order o1) \<and>
   \<not> ((o_revision_asc o1 \<or> o_version_asc o1) \<and> o_prefer_parents o1) \<and>
   \<not> (o_prefer_parents o1 \<and> o_input_order o1) \<and>
   \<not> (o_output_dir o1 \<noteq> [] \<and> o_input_dir o1 = []) \<and>
   \<not> (o_ignore_case o1 \<and> o_prefer_str o1 = [] \<and> o_avoid_str o1 = [] \<and> o_exclude_str o1 = []) \<and>
   \<not> (o_regex o1 \<and> o_prefer_str o1 = [] \<and> o_avoid_str o1 = [] \<and> o_exclude_str o1 = [])"
  by (auto simp: check_options_def)

lemma ex_strip:
  "strip ''snes.dat'' = ''snes.dat''" "strip ''USA'' = ''USA''" "upper ''USA'' = ''USA''"
  by (simp_all add: strip_def is_space_def upper_def upper_char_def upper_letters_def lower_letters_def)

lemma ex_opts:
  "handle_opts ex_main_env initial_options
     [(''--dat'', ''snes.dat''), (''--regions'', ''USA''), (''--all-regions'', []),
      (''--all-regions-with-lang'', [])] =
   Inr (initial_options\<lparr>o_dat_file := ''snes.dat'', o_selected_regions := [''USA''],
          o_all_regions := True, o_all_regions_with_lang := True\<rparr>)"
  by (simp add: handle_opt_def opt_step1_def opt_step2_def opt_step3_def opt_step4_def
      ex_main_env_def initial_options_def regions_option_def ex_strip Let_def)

text \<open>
  C7. With a catalog file that exists and a region list, \<open>--all-regions\<close> together with
  \<open>--all-regions-with-lang\<close> ends the program before anything is parsed, as the claim
  has it, but with exit status 0: this check alone calls \<open>sys.exit()\<close>. The checks
  before it, among them the three other exclusions and the missing arguments, end it
  with status 1 (\<open>check_options_exit_1\<close>).
\<close>

theorem all_regions_conflict_exits_0:
  "main_options ex_main_env
     (Some [(''--dat'', ''snes.dat''), (''--regions'', ''USA''), (''--all-regions'', []),
            (''--all-regions-with-lang'', [])]) = Inl (Exit 0)"
proof -
  have "check_options (initial_options\<lparr>o_dat_file := ''snes.dat'', o_selected_regions := [''USA''],
          o_all_regions := True, o_all_regions_with_lang := True\<rparr>) = Inl (Exit 0)"
    by (simp add: check_options_def initial_options_def)
  then show ?thesis by (simp only: main_options_def ex_opts option.case sum.case)
qed

section \<open>Region detection\<close>

text \<open>
  A region entry is detected exactly when it is in the table and some comma-separated,
  stripped token of some parenthesized segment of the name equals, whatever the case,
  one of the words of its pattern as a whole.
\<close>

lemma parse_region_data_iff:
  "rd \<in> set (parse_region_data table nm) \<longleftrightarrow>
   rd \<in> set table \<and> (\<exists>s \<in> set (sections nm). \<exists>el \<in> set (elements s).
      \<exists>alts. rd_pattern rd = Some alts \<and> (\<exists>w \<in> set alts. lower w = lower el))"
  by (auto simp: parse_region_data_def region_matches_def fullmatch_def list_ex_iff
      split: option.splits) blast+

lemma ex_world:
  "map rd_code (parse_region_data COUNTRY_REGION_CORRELATION ''Game (World)'') =
     [''EUR'', ''JPN'', ''USA'']"
  by (simp add: parse_region_data_def COUNTRY_REGION_CORRELATION_def RegionData_def
      region_matches_def fullmatch_def elements_def strip_def is_space_def is_paren_def
      lower_def lower_char_def upper_letters_def lower_letters_def)

lemma ex_twice_regions:
  "map rd_code (parse_region_data COUNTRY_REGION_CORRELATION ''Game (USA) (USA)'') =
     [''USA'', ''USA'']"
  by (simp add: parse_region_data_def COUNTRY_REGION_CORRELATION_def RegionData_def
      region_matches_def fullmatch_def elements_def strip_def is_space_def is_paren_def
      lower_def lower_char_def upper_letters_def lower_letters_def)

lemma ex_usa_regions:
  "map rd_code (parse_region_data COUNTRY_REGION_CORRELATION ''Game (USA)'') = [''USA'']"
  by (simp add: parse_region_data_def COUNTRY_REGION_CORRELATION_def RegionData_def
      region_matches_def fullmatch_def elements_def strip_def is_space_def is_paren_def
      lower_def lower_char_def upper_letters_def lower_letters_def)

lemma parse_game_regions:
  assumes "\<not> filtered_out flt exclude (game_name g)" "game_release g = []"
  shows "map_option (map ge_region) (fst (parse_game flt exclude nw table idx g)) =
         Some (map rd_code (parse_region_data table (game_name g)))"
  using assms by (simp add: parse_game_def Let_def make_entry_def comp_def)

lemma parse_game_release_regions:
  assumes "\<not> filtered_out flt exclude (game_name g)"
  shows "map_option (map ge_region) (fst (parse_game flt exclude nw table idx g)) =
         Some (map rd_code (fst (release_regions nw table (parse_region_data table (game_name g))
                 (game_release g))))"
  using assms by (simp add: parse_game_def Let_def make_entry_def comp_def split: prod.splits)

lemma ex_get_eur:
  "rd_code (fst (get_region_data False COUNTRY_REGION_CORRELATION ''EUR'')) = ''EUR''"
  by (simp add: get_region_data_def COUNTRY_REGION_CORRELATION_def RegionData_def Let_def
      upper_def upper_char_def upper_letters_def lower_letters_def truthy_def)

lemma release_step:
  "map rd_code rds = [''USA''] \<Longrightarrow>
   map rd_code (fst (release_regions False COUNTRY_REGION_CORRELATION rds
      [\<lparr>rel_region = Some ''USA''\<rparr>, \<lparr>rel_region = Some ''EUR''\<rparr>, \<lparr>rel_region = Some ''EUR''\<rparr>])) =
   [''USA'', ''EUR'']"
proof -
  assume a: "map rd_code rds = [''USA'']"
  then obtain rd where rds: "rds = [rd]" "rd_code rd = ''USA''" by (cases rds) auto
  obtain e t w where g: "get_region_data False COUNTRY_REGION_CORRELATION ''EUR'' = (e, t, w)"
    by (cases "get_region_data False COUNTRY_REGION_CORRELATION ''EUR''")
  with ex_get_eur have "rd_code e = ''EUR''" by simp
  with rds g show ?thesis by (simp add: is_present_def)
qed

text \<open>
  C8 on the name \<open>Game (USA) (USA)\<close>. \<open>parse_region_data\<close> appends a region entry for
  every match and never asks whether its code is already there, so the code \<open>USA\<close> is
  detected twice and the game expands into two candidates of the region \<open>USA\<close>, where
  the specification has exactly one per matched code. The name \<open>Game (World)\<close> expands
  into one candidate for each of \<open>EUR\<close>, \<open>JPN\<close> and \<open>USA\<close>. The loop over the releases, a few lines further on in
  \<open>parse_games\<close>, does ask (\<open>is_present\<close>): with the name \<open>Game (USA)\<close> and releases for
  \<open>USA\<close>, \<open>EUR\<close> and \<open>EUR\<close>, there is one candidate for each of the two codes.
\<close>

theorem repeated_region_twice:
  "map rd_code (parse_region_data COUNTRY_REGION_CORRELATION (game_name ex_twice_game)) =
     [''USA'', ''USA''] \<and>
   map_option (map ge_region)
     (fst (parse_game no_filters [] False COUNTRY_REGION_CORRELATION 0 ex_twice_game)) =
     Some [''USA'', ''USA''] \<and>
   map_option (map ge_region)
     (fst (parse_game no_filters [] False COUNTRY_REGION_CORRELATION 0 ex_world_game)) =
     Some [''EUR'', ''JPN'', ''USA''] \<and>
   map_option (map ge_region)
     (fst (parse_game no_filters [] False COUNTRY_REGION_CORRELATION 0 ex_release_game)) =
     Some [''USA'', ''EUR'']"
proof -
  have nf: "\<not> filtered_out no_filters [] nm" for nm
    by (simp add: filtered_out_def no_filters_def check_in_pattern_list_def)
  have t: "game_release ex_twice_game = []" "game_name ex_twice_game = ''Game (USA) (USA)''"
    and w: "game_release ex_world_game = []" "game_name ex_world_game = ''Game (World)''"
    and r: "game_name ex_release_game = ''Game (USA)''"
      "game_release ex_release_game =
         [\<lparr>rel_region = Some ''USA''\<rparr>, \<lparr>rel_region = Some ''EUR''\<rparr>, \<lparr>rel_region = Some ''EUR''\<rparr>]"
    by (simp_all add: ex_twice_game_def ex_world_game_def ex_release_game_def)
  have 1: "map_option (map ge_region)
     (fst (parse_game no_filters [] False COUNTRY_REGION_CORRELATION 0 ex_twice_game)) =
     Some [''USA'', ''USA'']"
    unfolding parse_game_regions [OF nf t(1)] t(2) ex_twice_regions ..
  have 2: "map_option (map ge_region)
     (fst (parse_game no_filters [] False COUNTRY_REGION_CORRELATION 0 ex_world_game)) =
     Some [''EUR'', ''JPN'', ''USA'']"
    unfolding parse_game_regions [OF nf w(1)] w(2) ex_world ..
  have 3: "map_option (map ge_region)
     (fst (parse_game no_filters [] False COUNTRY_REGION_CORRELATION 0 ex_release_game)) =
     Some [''USA'', ''EUR'']"
    unfolding parse_game_release_regions [OF nf] r release_step [OF ex_usa_regions] ..
  from 1 2 3 ex_twice_regions t(2) show ?thesis by simp
qed

section \<open>Padded tags and numeric order\<close>





lemma to_int_list_simps [simp]:
  "to_int_list [] m = []"
  "to_int_list (c # cs) m = m * of_char c # to_int_list cs m"
  "to_int_list (a @ b) m = to_int_list a m @ to_int_list b m"
  "length (to_int_list s m) = length s"
  by (simp_all add: to_int_list_def)









































end
